theory Spec2Isabelle
  imports Main "HOL-Library.Char_ord" "HOL-Library.List_Lexorder"
begin

section \<open>The API views of foodgram (backend/foodgram/api/views.py)\<close>

text \<open>
  The file verified here is the view layer of a Django REST framework application.
  The views are embedded as functions over an explicit store (the database tables the
  views read and write, each a list of rows) and return a response or the exception
  the view raises. Python strings are modelled by their UTF-8 bytes (\<open>string\<close>),
  which is what the response carries on the wire.
\<close>

subsection \<open>The data model\<close>

text \<open>
  Modelled from the spec: the entities of its section 3. The models themselves
  (\<open>recipes/models.py\<close>, \<open>users/models.py\<close>) are not among the sources; the records
  below hold the fields that views.py names: \<open>id\<close>, \<open>user\<close>, \<open>recipe\<close>, \<open>author\<close>,
  \<open>amount\<close>, \<open>ingredient__name\<close>, \<open>ingredient__measurement_unit\<close>, and the user's
  password. A foreign key is the primary key of the row it points to; the ingredient
  of an \<open>IngredientAmount\<close> row is held resolved, as the ORM presents it
  (\<open>ingredient__name\<close>). The quantity of an \<open>IngredientAmount\<close> is an integer (the
  spec's line "eggs: 5 unit"). \<open>shopcart\<close>, in the lookup of line 132, is the relation
  from a recipe to the \<open>ShoppingCart\<close> rows that hold it.
\<close>

type_synonym pk = nat

record User =
  user_id :: pk
  password :: string

record Ingredient =
  name :: string
  measurement_unit :: string

record Recipe =
  recipe_id :: pk
  recipe_author :: pk

record IngredientAmount =
  ia_recipe :: pk
  ia_ingredient :: Ingredient
  amount :: int

record Favorite =
  favorite_id :: pk
  favorite_user :: pk
  favorite_recipe :: pk

record ShoppingCart =
  shopcart_id :: pk
  shopcart_user :: pk
  shopcart_recipe :: pk

record Subscription =
  subscription_id :: pk
  subscription_user :: pk
  subscription_author :: pk

record store =
  User_objects :: "User list"
  Recipe_objects :: "Recipe list"
  IngredientAmount_objects :: "IngredientAmount list"
  Favorite_objects :: "Favorite list"
  ShoppingCart_objects :: "ShoppingCart list"
  Subscription_objects :: "Subscription list"

subsection \<open>Responses\<close>

text \<open>
  \<open>django.http.HttpResponse(text, status=..., content_type=...)\<close>: the body, the status
  and the headers; an explicit \<open>content_type\<close> becomes the \<open>Content-Type\<close> header as it
  is given, and \<open>response[k] = v\<close> sets a header.
\<close>

record HttpResponse =
  content :: string
  status_code :: nat
  headers :: "string \<rightharpoonup> string"

definition HTTP_200_OK :: nat where
  "HTTP_200_OK = 200"

definition new_HttpResponse :: "string \<Rightarrow> nat \<Rightarrow> string \<Rightarrow> HttpResponse" where
  "new_HttpResponse text st content_type =
     \<lparr>content = text, status_code = st, headers = [''Content-Type'' \<mapsto> content_type]\<rparr>"

definition set_header :: "HttpResponse \<Rightarrow> string \<Rightarrow> string \<Rightarrow> HttpResponse" where
  "set_header response k v = response\<lparr>headers := (headers response)(k \<mapsto> v)\<rparr>"

subsection \<open>Formatting\<close>

text \<open>Python's \<open>str\<close> of an integer, as the f-string \<open>{amount}\<close> renders it.\<close>

definition digit_char :: "nat \<Rightarrow> char" where
  "digit_char d = ''0123456789'' ! d"

fun str_nat :: "nat \<Rightarrow> string" where
  "str_nat n = (if n < 10 then [digit_char n] else str_nat (n div 10) @ [digit_char (n mod 10)])"

declare str_nat.simps [simp del]

definition str_int :: "int \<Rightarrow> string" where
  "str_int i = (if i < 0 then CHR ''-'' # str_nat (nat (- i)) else str_nat (nat i))"

text \<open>
  The two literals of \<open>download_shopping_cart\<close>, in UTF-8:
  line 140, U+0412 U+0020 U+0432 U+0430 U+0448 U+0435 U+0439 U+0020 U+043A U+043E U+0440
  U+0437 U+0438 U+043D U+0435 U+0020 U+043F U+0443 U+0441 U+0442 U+043E
  ("your cart is empty"), and line 142, U+0421 U+043F U+0438 U+0441 U+043E U+043A U+0020
  U+043F U+043E U+043A U+0443 U+043F U+043E U+043A U+003A U+000A ("shopping list:" and a
  newline).
\<close>

definition empty_cart_text :: string where
  "empty_cart_text =
     [CHR 0xD0, CHR 0x92, CHR 0x20, CHR 0xD0, CHR 0xB2, CHR 0xD0, CHR 0xB0, CHR 0xD1, CHR 0x88,
      CHR 0xD0, CHR 0xB5, CHR 0xD0, CHR 0xB9, CHR 0x20, CHR 0xD0, CHR 0xBA, CHR 0xD0, CHR 0xBE,
      CHR 0xD1, CHR 0x80, CHR 0xD0, CHR 0xB7, CHR 0xD0, CHR 0xB8, CHR 0xD0, CHR 0xBD, CHR 0xD0,
      CHR 0xB5, CHR 0x20, CHR 0xD0, CHR 0xBF, CHR 0xD1, CHR 0x83, CHR 0xD1, CHR 0x81, CHR 0xD1,
      CHR 0x82, CHR 0xD0, CHR 0xBE]"

definition shopping_list_header :: string where
  "shopping_list_header =
     [CHR 0xD0, CHR 0xA1, CHR 0xD0, CHR 0xBF, CHR 0xD0, CHR 0xB8, CHR 0xD1, CHR 0x81, CHR 0xD0,
      CHR 0xBE, CHR 0xD0, CHR 0xBA, CHR 0x20, CHR 0xD0, CHR 0xBF, CHR 0xD0, CHR 0xBE, CHR 0xD0,
      CHR 0xBA, CHR 0xD1, CHR 0x83, CHR 0xD0, CHR 0xBF, CHR 0xD0, CHR 0xBE, CHR 0xD0, CHR 0xBA,
      CHR 0x3A, CHR 0x0A]"

subsection \<open>The shopping-list query (lines 131-137)\<close>

text \<open>
  \<open>IngredientAmount.objects.filter(recipe__shopcart__user=request.user)\<close> is an inner
  join of the \<open>IngredientAmount\<close> rows with the \<open>ShoppingCart\<close> rows of their recipe,
  kept where the cart row is the user's: one joined row per pair, so an amount is
  repeated once for every cart row that holds its recipe.
\<close>

definition in_cart_of :: "User \<Rightarrow> IngredientAmount \<Rightarrow> ShoppingCart \<Rightarrow> bool" where
  "in_cart_of request_user ia sc =
     (shopcart_recipe sc = ia_recipe ia \<and> shopcart_user sc = user_id request_user)"

definition filter_recipe__shopcart__user :: "store \<Rightarrow> User \<Rightarrow> IngredientAmount list" where
  "filter_recipe__shopcart__user db request_user =
     concat (map (\<lambda>ia. map (\<lambda>sc. ia) (filter (in_cart_of request_user ia) (ShoppingCart_objects db)))
                 (IngredientAmount_objects db))"

text \<open>
  \<open>.values('ingredient__name', 'ingredient__measurement_unit')\<close> followed by
  \<open>.annotate(ingredient_amount=Sum('amount'))\<close> groups the joined rows by the two
  values and sums \<open>amount\<close> in each group; \<open>.order_by('ingredient__name')\<close> sorts the
  groups by the name. Each result row is a dictionary of three keys. The database's
  order of strings is taken to be the byte-wise one, and groups of one name (with
  different units), whose order the query leaves open, come in one fixed order.
\<close>

record values_row =
  ingredient__name :: string
  ingredient__measurement_unit :: string
  ingredient_amount :: int

definition group_key :: "IngredientAmount \<Rightarrow> string \<times> string" where
  "group_key ia = (name (ia_ingredient ia), measurement_unit (ia_ingredient ia))"

definition Sum_amount :: "IngredientAmount list \<Rightarrow> string \<times> string \<Rightarrow> int" where
  "Sum_amount rows k = sum_list (map amount (filter (\<lambda>ia. group_key ia = k) rows))"

definition values_annotate :: "IngredientAmount list \<Rightarrow> values_row list" where
  "values_annotate rows =
     map (\<lambda>k. \<lparr>ingredient__name = fst k, ingredient__measurement_unit = snd k,
               ingredient_amount = Sum_amount rows k\<rparr>)
         (remdups (map group_key rows))"

definition order_by_ingredient__name :: "values_row list \<Rightarrow> values_row list" where
  "order_by_ingredient__name groups = sort_key ingredient__name groups"

definition shopping_cart_ingredients :: "store \<Rightarrow> User \<Rightarrow> values_row list" where
  "shopping_cart_ingredients db request_user =
     order_by_ingredient__name (values_annotate (filter_recipe__shopcart__user db request_user))"

subsection \<open>\<open>RecipeViewSet.download_shopping_cart\<close> (lines 128-158)\<close>

text \<open>
  The view, for the authenticated user (its permission class is \<open>IsAuthenticated\<close>).
  The \<open>print\<close> of line 138 writes to the console and is no part of the response.
\<close>

definition ingredient_line :: "values_row \<Rightarrow> string" where
  "ingredient_line ingr =
     (let name = ingredient__name ingr;
          m_unit = ingredient__measurement_unit ingr;
          amount = ingredient_amount ingr
      in name @ '': '' @ str_int amount @ '' '' @ m_unit @ [CHR 0x0A])"

definition download_shopping_cart :: "store \<Rightarrow> User \<Rightarrow> HttpResponse" where
  "download_shopping_cart db request_user =
     (let ingredients = shopping_cart_ingredients db request_user;
          text = (if length ingredients = 0 then empty_cart_text
                  else concat (shopping_list_header # map ingredient_line ingredients));
          filename = ''shopping_list.txt'';
          response = new_HttpResponse text HTTP_200_OK ''text/plain''
      in set_header response ''Content-Disposition''
           (''attachment; filename='' @ [CHR 0x22] @ filename @ [CHR 0x22]))"

subsection \<open>Exceptions and REST framework responses\<close>

text \<open>
  The exceptions the views can raise. REST framework's exception handler answers
  \<open>Http404\<close> with 404, \<open>ValidationError\<close> with 400, \<open>NotAuthenticated\<close> with 401,
  \<open>PermissionDenied\<close> with 403 and \<open>MethodNotAllowed\<close> with 405; any other exception
  is not handled and ends as a server error (500).
\<close>

type_synonym errors = "(string \<times> string list) list"

datatype exn =
    Http404
  | MultipleObjectsReturned
  | ValidationError errors
  | KeyError string
  | AttributeError
  | NotAuthenticated
  | PermissionDenied
  | MethodNotAllowed

fun exception_status :: "exn \<Rightarrow> nat" where
  "exception_status Http404 = 404"
| "exception_status (ValidationError e) = 400"
| "exception_status NotAuthenticated = 401"
| "exception_status PermissionDenied = 403"
| "exception_status MethodNotAllowed = 405"
| "exception_status MultipleObjectsReturned = 500"
| "exception_status (KeyError k) = 500"
| "exception_status AttributeError = 500"

text \<open>
  The serializers (\<open>api/serializers.py\<close>) are not part of the sources, so the
  representation a serializer class gives of an instance is kept symbolic:
  \<open>Serialized c x\<close> stands for \<open>c(x).data\<close>.
\<close>

datatype serializer_class =
    FavoriteSerializer
  | ShoppingCartSerializer
  | SubscribeSerializer
  | RecipeInteractSerializer
  | RecipeReadSerializer

datatype model_instance =
    FavoriteInstance Favorite
  | ShoppingCartInstance ShoppingCart
  | SubscriptionInstance Subscription
  | RecipeInstance Recipe

datatype response_data =
    NoData
  | Dict "(string \<times> string) list"
  | Errors errors
  | Serialized serializer_class model_instance

record Response =
  data :: response_data
  status :: nat

definition HTTP_201_CREATED :: nat where
  "HTTP_201_CREATED = 201"

definition HTTP_204_NO_CONTENT :: nat where
  "HTTP_204_NO_CONTENT = 204"

definition HTTP_400_BAD_REQUEST :: nat where
  "HTTP_400_BAD_REQUEST = 400"

definition HTTP_403_FORBIDDEN :: nat where
  "HTTP_403_FORBIDDEN = 403"

subsection \<open>Framework helpers the views call\<close>

text \<open>
  \<open>django.shortcuts.get_object_or_404(Model, **lookup)\<close> is \<open>Model.objects.get\<close>:
  the one row that matches; \<open>Http404\<close> when none does; \<open>MultipleObjectsReturned\<close>,
  which it does not catch, when several do.
\<close>

definition get_object_or_404 :: "'a list \<Rightarrow> ('a \<Rightarrow> bool) \<Rightarrow> exn + 'a" where
  "get_object_or_404 objects lookup =
     (case filter lookup objects of
        [] \<Rightarrow> Inl Http404
      | [x] \<Rightarrow> Inr x
      | x # y # zs \<Rightarrow> Inl MultipleObjectsReturned)"

text \<open>
  \<open>perform_destroy(instance)\<close> is \<open>instance.delete()\<close>: the row with the instance's
  primary key is deleted.
\<close>

definition perform_destroy :: "('a \<Rightarrow> pk) \<Rightarrow> 'a list \<Rightarrow> 'a \<Rightarrow> 'a list" where
  "perform_destroy id_of objects instance = filter (\<lambda>x. id_of x \<noteq> id_of instance) objects"

text \<open>The primary key the database gives a new row: one not in use.\<close>

definition next_pk :: "pk list \<Rightarrow> pk" where
  "next_pk ids = Suc (fold max ids 0)"

subsection \<open>\<open>FavoriteAPIView\<close> (lines 45-60)\<close>

text \<open>
  \<open>CreateModelMixin.create\<close> validates the serializer
  (\<open>is_valid(raise_exception=True)\<close>), calls \<open>perform_create\<close> and answers 201 with
  \<open>serializer.data\<close>. What the serializer finds wrong with the request is the parameter
  \<open>serializer_errors\<close> (no error: valid). \<open>serializer.save(user=..., recipe=...)\<close>
  inserts a row with these two values.
\<close>

definition FavoriteAPIView_perform_create :: "store \<Rightarrow> User \<Rightarrow> pk \<Rightarrow> exn + Favorite \<times> store" where
  "FavoriteAPIView_perform_create db request_user recipe_id_kwarg =
     (case get_object_or_404 (Recipe_objects db) (\<lambda>r. recipe_id r = recipe_id_kwarg) of
        Inl e \<Rightarrow> Inl e
      | Inr recipe \<Rightarrow>
          (let saved = \<lparr>favorite_id = next_pk (map favorite_id (Favorite_objects db)),
                        favorite_user = user_id request_user,
                        favorite_recipe = recipe_id recipe\<rparr>
           in Inr (saved, db\<lparr>Favorite_objects := Favorite_objects db @ [saved]\<rparr>)))"

definition FavoriteAPIView_create :: "errors \<Rightarrow> store \<Rightarrow> User \<Rightarrow> pk \<Rightarrow> (exn + Response) \<times> store" where
  "FavoriteAPIView_create serializer_errors db request_user recipe_id_kwarg =
     (if serializer_errors \<noteq> [] then (Inl (ValidationError serializer_errors), db)
      else case FavoriteAPIView_perform_create db request_user recipe_id_kwarg of
             Inl e \<Rightarrow> (Inl e, db)
           | Inr (saved, db') \<Rightarrow>
               (Inr \<lparr>data = Serialized FavoriteSerializer (FavoriteInstance saved),
                     status = HTTP_201_CREATED\<rparr>, db'))"

definition FavoriteAPIView_destroy :: "store \<Rightarrow> User \<Rightarrow> pk \<Rightarrow> (exn + Response) \<times> store" where
  "FavoriteAPIView_destroy db request_user recipe_id_kwarg =
     (case get_object_or_404 (Favorite_objects db)
             (\<lambda>f. favorite_recipe f = recipe_id_kwarg \<and> favorite_user f = user_id request_user) of
        Inl e \<Rightarrow> (Inl e, db)
      | Inr instance \<Rightarrow>
          (Inr \<lparr>data = NoData, status = HTTP_204_NO_CONTENT\<rparr>,
           db\<lparr>Favorite_objects := perform_destroy favorite_id (Favorite_objects db) instance\<rparr>))"

subsection \<open>\<open>ShoppingCartAPIView\<close> (lines 63-78)\<close>

definition ShoppingCartAPIView_perform_create ::
  "store \<Rightarrow> User \<Rightarrow> pk \<Rightarrow> exn + ShoppingCart \<times> store" where
  "ShoppingCartAPIView_perform_create db request_user recipe_id_kwarg =
     (case get_object_or_404 (Recipe_objects db) (\<lambda>r. recipe_id r = recipe_id_kwarg) of
        Inl e \<Rightarrow> Inl e
      | Inr recipe \<Rightarrow>
          (let saved = \<lparr>shopcart_id = next_pk (map shopcart_id (ShoppingCart_objects db)),
                        shopcart_user = user_id request_user,
                        shopcart_recipe = recipe_id recipe\<rparr>
           in Inr (saved, db\<lparr>ShoppingCart_objects := ShoppingCart_objects db @ [saved]\<rparr>)))"

definition ShoppingCartAPIView_create :: "errors \<Rightarrow> store \<Rightarrow> User \<Rightarrow> pk \<Rightarrow> (exn + Response) \<times> store" where
  "ShoppingCartAPIView_create serializer_errors db request_user recipe_id_kwarg =
     (if serializer_errors \<noteq> [] then (Inl (ValidationError serializer_errors), db)
      else case ShoppingCartAPIView_perform_create db request_user recipe_id_kwarg of
             Inl e \<Rightarrow> (Inl e, db)
           | Inr (saved, db') \<Rightarrow>
               (Inr \<lparr>data = Serialized ShoppingCartSerializer (ShoppingCartInstance saved),
                     status = HTTP_201_CREATED\<rparr>, db'))"

definition ShoppingCartAPIView_destroy :: "store \<Rightarrow> User \<Rightarrow> pk \<Rightarrow> (exn + Response) \<times> store" where
  "ShoppingCartAPIView_destroy db request_user recipe_id_kwarg =
     (case get_object_or_404 (ShoppingCart_objects db)
             (\<lambda>c. shopcart_recipe c = recipe_id_kwarg \<and> shopcart_user c = user_id request_user) of
        Inl e \<Rightarrow> (Inl e, db)
      | Inr instance \<Rightarrow>
          (Inr \<lparr>data = NoData, status = HTTP_204_NO_CONTENT\<rparr>,
           db\<lparr>ShoppingCart_objects := perform_destroy shopcart_id (ShoppingCart_objects db) instance\<rparr>))"

subsection \<open>\<open>SubscribeAPIView\<close> (lines 81-96)\<close>

definition SubscribeAPIView_perform_create ::
  "store \<Rightarrow> User \<Rightarrow> pk \<Rightarrow> exn + Subscription \<times> store" where
  "SubscribeAPIView_perform_create db request_user user_id_kwarg =
     (case get_object_or_404 (User_objects db) (\<lambda>u. user_id u = user_id_kwarg) of
        Inl e \<Rightarrow> Inl e
      | Inr author \<Rightarrow>
          (let saved = \<lparr>subscription_id = next_pk (map subscription_id (Subscription_objects db)),
                        subscription_user = user_id request_user,
                        subscription_author = user_id author\<rparr>
           in Inr (saved, db\<lparr>Subscription_objects := Subscription_objects db @ [saved]\<rparr>)))"

definition SubscribeAPIView_create :: "errors \<Rightarrow> store \<Rightarrow> User \<Rightarrow> pk \<Rightarrow> (exn + Response) \<times> store" where
  "SubscribeAPIView_create serializer_errors db request_user user_id_kwarg =
     (if serializer_errors \<noteq> [] then (Inl (ValidationError serializer_errors), db)
      else case SubscribeAPIView_perform_create db request_user user_id_kwarg of
             Inl e \<Rightarrow> (Inl e, db)
           | Inr (saved, db') \<Rightarrow>
               (Inr \<lparr>data = Serialized SubscribeSerializer (SubscriptionInstance saved),
                     status = HTTP_201_CREATED\<rparr>, db'))"

definition SubscribeAPIView_destroy :: "store \<Rightarrow> User \<Rightarrow> pk \<Rightarrow> (exn + Response) \<times> store" where
  "SubscribeAPIView_destroy db request_user user_id_kwarg =
     (case get_object_or_404 (Subscription_objects db)
             (\<lambda>s. subscription_author s = user_id_kwarg \<and> subscription_user s = user_id request_user) of
        Inl e \<Rightarrow> (Inl e, db)
      | Inr instance \<Rightarrow>
          (Inr \<lparr>data = NoData, status = HTTP_204_NO_CONTENT\<rparr>,
           db\<lparr>Subscription_objects :=
                 perform_destroy subscription_id (Subscription_objects db) instance\<rparr>))"

subsection \<open>\<open>RecipeViewSet\<close> (lines 99-126)\<close>

text \<open>
  \<open>request.data\<close> is what the parser of the request's content type makes of the body:
  a JSON object becomes a dictionary; a form-encoded body, or a multipart body without
  files, becomes a \<open>QueryDict\<close>, which is immutable, and an item assignment on it
  raises \<open>AttributeError\<close>. Of the values of the dictionary the views only write one,
  the primary key of the user.
\<close>

datatype json = JInt int | JStr string

type_synonym payload = "string \<rightharpoonup> json"

datatype request_data = JSONObject payload | ImmutableQueryDict payload

definition RecipeViewSet_get_serializer_class :: "string \<Rightarrow> serializer_class" where
  "RecipeViewSet_get_serializer_class action =
     (if action \<in> set [''list'', ''retrieve''] then RecipeReadSerializer
      else RecipeInteractSerializer)"

text \<open>
  Modelled from the spec: \<open>RecipeInteractSerializer.save\<close> (\<open>api/serializers.py\<close> is not
  among the sources) persists the validated payload as a new recipe, its author the
  payload's \<open>author\<close> entry ("forces the author field to the authenticated user,
  validates, persists"). Of the recipe's fields only the two that views.py names are
  kept.
\<close>

definition RecipeInteractSerializer_save :: "store \<Rightarrow> payload \<Rightarrow> exn + Recipe \<times> store" where
  "RecipeInteractSerializer_save db validated_data =
     (case validated_data ''author'' of
        Some (JInt i) \<Rightarrow>
          (let saved = \<lparr>recipe_id = next_pk (map recipe_id (Recipe_objects db)),
                        recipe_author = nat i\<rparr>
           in Inr (saved, db\<lparr>Recipe_objects := Recipe_objects db @ [saved]\<rparr>))
      | _ \<Rightarrow> Inl (KeyError ''author''))"

text \<open>
  \<open>RecipeViewSet.create\<close> (lines 107-121). Line 108 assigns into \<open>request.data\<close>,
  which raises when the data is immutable. \<open>self.get_serializer\<close> takes the class
  from \<open>get_serializer_class\<close>, the action being \<open>create\<close>; what that serializer finds
  wrong with the data is the parameter \<open>serializer_errors\<close>, and
  \<open>is_valid(raise_exception=True)\<close> raises when there is an error. The headers of
  \<open>get_success_headers\<close> are not modelled.
\<close>

definition RecipeViewSet_create ::
  "(serializer_class \<Rightarrow> payload \<Rightarrow> errors) \<Rightarrow> store \<Rightarrow> User \<Rightarrow> request_data \<Rightarrow>
   (exn + Response) \<times> store" where
  "RecipeViewSet_create serializer_errors db request_user request_data =
     (case request_data of
        ImmutableQueryDict d \<Rightarrow> (Inl AttributeError, db)
      | JSONObject d \<Rightarrow>
          (let request_data = d(''author'' \<mapsto> JInt (int (user_id request_user)));
               serializer_class = RecipeViewSet_get_serializer_class ''create'';
               found = serializer_errors serializer_class request_data
           in if found \<noteq> [] then (Inl (ValidationError found), db)
              else case RecipeInteractSerializer_save db request_data of
                     Inl e \<Rightarrow> (Inl e, db)
                   | Inr (instance, db') \<Rightarrow>
                       (Inr \<lparr>data = Serialized RecipeReadSerializer (RecipeInstance instance),
                             status = HTTP_201_CREATED\<rparr>, db')))"

subsection \<open>Dispatch of a request to \<open>RecipeViewSet\<close> (lines 103-105)\<close>

datatype http_method = GET | POST | PUT | PATCH | DELETE | HEAD | OPTIONS | TRACE

text \<open>\<open>request.method.lower()\<close>.\<close>

fun method_lower :: "http_method \<Rightarrow> string" where
  "method_lower GET = ''get''"
| "method_lower POST = ''post''"
| "method_lower PUT = ''put''"
| "method_lower PATCH = ''patch''"
| "method_lower DELETE = ''delete''"
| "method_lower HEAD = ''head''"
| "method_lower OPTIONS = ''options''"
| "method_lower TRACE = ''trace''"

definition RecipeViewSet_http_method_names :: "string list" where
  "RecipeViewSet_http_method_names = [''get'', ''post'', ''patch'', ''delete'']"

definition SAFE_METHODS :: "http_method list" where
  "SAFE_METHODS = [GET, HEAD, OPTIONS]"

text \<open>
  Modelled from the spec: \<open>AuthorOrReadOnly\<close> (\<open>api/permissions.py\<close> is not among the
  sources): "update/delete restricted to the recipe's author (or read-only for
  others)", with authentication required for what is not read-only. The anonymous
  user is \<open>None\<close>.
\<close>

definition AuthorOrReadOnly_has_permission :: "http_method \<Rightarrow> User option \<Rightarrow> bool" where
  "AuthorOrReadOnly_has_permission method request_user =
     (method \<in> set SAFE_METHODS \<or> request_user \<noteq> None)"

definition AuthorOrReadOnly_has_object_permission ::
  "http_method \<Rightarrow> User option \<Rightarrow> Recipe \<Rightarrow> bool" where
  "AuthorOrReadOnly_has_object_permission method request_user obj =
     (method \<in> set SAFE_METHODS \<or>
      (case request_user of None \<Rightarrow> False | Some u \<Rightarrow> recipe_author obj = user_id u))"

definition IsAuthenticated_has_permission :: "User option \<Rightarrow> bool" where
  "IsAuthenticated_has_permission request_user = (request_user \<noteq> None)"

text \<open>
  \<open>APIView.permission_denied\<close>: a request that carries no credentials gets
  \<open>NotAuthenticated\<close>, any other \<open>PermissionDenied\<close>.
\<close>

definition permission_denied :: "User option \<Rightarrow> exn" where
  "permission_denied request_user =
     (case request_user of None \<Rightarrow> NotAuthenticated | Some u \<Rightarrow> PermissionDenied)"

text \<open>
  The routes of the viewset and the router's map from a route's methods to the
  actions (the handlers): the list route, the detail route of one recipe, and the route
  of the extra action \<open>download_shopping_cart\<close> (declared for \<open>get\<close>, with the
  permission class \<open>IsAuthenticated\<close>).
\<close>

datatype route = List_route | Detail_route pk | Download_route

fun action_map :: "route \<Rightarrow> http_method \<Rightarrow> string option" where
  "action_map List_route GET = Some ''list''"
| "action_map List_route POST = Some ''create''"
| "action_map (Detail_route k) GET = Some ''retrieve''"
| "action_map (Detail_route k) PUT = Some ''update''"
| "action_map (Detail_route k) PATCH = Some ''partial_update''"
| "action_map (Detail_route k) DELETE = Some ''destroy''"
| "action_map Download_route GET = Some ''download_shopping_cart''"
| "action_map r m = None"

text \<open>
  \<open>GenericAPIView.get_object\<close>, which \<open>retrieve\<close>, \<open>update\<close> and \<open>destroy\<close> start with:
  the object of the queryset with the primary key of the URL, or 404; then
  \<open>check_object_permissions\<close>.
\<close>

definition RecipeViewSet_get_object :: "store \<Rightarrow> User option \<Rightarrow> http_method \<Rightarrow> pk \<Rightarrow> exn + Recipe" where
  "RecipeViewSet_get_object db request_user method k =
     (case get_object_or_404 (Recipe_objects db) (\<lambda>r. recipe_id r = k) of
        Inl e \<Rightarrow> Inl e
      | Inr obj \<Rightarrow>
          if AuthorOrReadOnly_has_object_permission method request_user obj then Inr obj
          else Inl (permission_denied request_user))"

text \<open>
  \<open>APIView.dispatch\<close>: \<open>initial\<close> checks the permissions of the view; then the
  handler is the one bound to the method if \<open>request.method.lower()\<close> is in
  \<open>http_method_names\<close>, and \<open>http_method_not_allowed\<close> otherwise. The result
  \<open>Inr (action, obj)\<close> says which handler runs, and on which object for the detail
  route.
\<close>

definition RecipeViewSet_dispatch ::
  "store \<Rightarrow> User option \<Rightarrow> route \<Rightarrow> http_method \<Rightarrow> exn + string \<times> Recipe option" where
  "RecipeViewSet_dispatch db request_user route method =
     (if \<not> (case route of
               Download_route \<Rightarrow> IsAuthenticated_has_permission request_user
             | _ \<Rightarrow> AuthorOrReadOnly_has_permission method request_user)
      then Inl (permission_denied request_user)
      else if method_lower method \<in> set RecipeViewSet_http_method_names then
        (case action_map route method of
           None \<Rightarrow> Inl MethodNotAllowed
         | Some action \<Rightarrow>
             (case route of
                Detail_route k \<Rightarrow>
                  (case RecipeViewSet_get_object db request_user method k of
                     Inl e \<Rightarrow> Inl e
                   | Inr obj \<Rightarrow> Inr (action, Some obj))
              | _ \<Rightarrow> Inr (action, None)))
      else Inl MethodNotAllowed)"

subsection \<open>\<open>UserViewSet\<close> (lines 161-196)\<close>

text \<open>
  The keyword arguments of a handler are a dictionary of Python values. The router's
  detail route binds \<open>put\<close> to \<open>update\<close> and \<open>patch\<close> to \<open>partial_update\<close>, and
  \<open>dispatch\<close> calls the handler with the keyword arguments of the URL, that is the
  lookup \<open>pk\<close>. \<open>UpdateModelMixin.partial_update\<close> sets \<open>kwargs['partial'] = True\<close> and
  calls \<open>self.update\<close>. \<open>super().update\<close>, the mixin's update, is the parameter
  \<open>super_update\<close>.
\<close>

datatype pyval = PyBool bool | PyStr string

fun truthy :: "pyval \<Rightarrow> bool" where
  "truthy (PyBool b) = b"
| "truthy (PyStr s) = (s \<noteq> [])"

definition UserViewSet_update ::
  "((string \<rightharpoonup> pyval) \<Rightarrow> exn + Response) \<Rightarrow> (string \<rightharpoonup> pyval) \<Rightarrow> exn + Response" where
  "UserViewSet_update super_update kwargs =
     (case kwargs ''partial'' of
        None \<Rightarrow> Inl (KeyError ''partial'')
      | Some partial \<Rightarrow>
          if truthy partial then super_update kwargs
          else Inr \<lparr>data = NoData, status = HTTP_403_FORBIDDEN\<rparr>)"

definition UserViewSet_partial_update ::
  "((string \<rightharpoonup> pyval) \<Rightarrow> exn + Response) \<Rightarrow> (string \<rightharpoonup> pyval) \<Rightarrow> exn + Response" where
  "UserViewSet_partial_update super_update kwargs =
     UserViewSet_update super_update (kwargs(''partial'' \<mapsto> PyBool True))"

definition UserViewSet_put :: "((string \<rightharpoonup> pyval) \<Rightarrow> exn + Response) \<Rightarrow> string \<Rightarrow> exn + Response" where
  "UserViewSet_put super_update k = UserViewSet_update super_update [''pk'' \<mapsto> PyStr k]"

definition UserViewSet_patch :: "((string \<rightharpoonup> pyval) \<Rightarrow> exn + Response) \<Rightarrow> string \<Rightarrow> exn + Response" where
  "UserViewSet_patch super_update k = UserViewSet_partial_update super_update [''pk'' \<mapsto> PyStr k]"

text \<open>
  \<open>set_password\<close> (lines 179-196). \<open>PasswordSerializer\<close> is not among the sources:
  what it makes of the request's data, its errors and its \<open>data\<close>, is a parameter. The
  password hasher of Django is a parameter as well: \<open>make_password\<close> encodes a raw
  password and \<open>check_password raw encoded\<close> verifies one.
  \<open>user.check_password(raw)\<close> verifies against the stored password,
  \<open>user.set_password(raw)\<close> stores the encoding, and \<open>user.save()\<close> writes the row
  with the user's primary key (inserting it if there is none). That a successful
  check re-encodes a password stored with an outdated hasher is left out: lines
  192-193 overwrite it.
\<close>

record PasswordSerializer =
  ps_errors :: errors
  ps_data :: "string \<rightharpoonup> string"

definition is_valid :: "PasswordSerializer \<Rightarrow> bool" where
  "is_valid serializer = (ps_errors serializer = [])"

definition user_check_password :: "(string \<Rightarrow> string \<Rightarrow> bool) \<Rightarrow> User \<Rightarrow> string \<Rightarrow> bool" where
  "user_check_password check_password user raw_password = check_password raw_password (password user)"

definition user_set_password :: "(string \<Rightarrow> string) \<Rightarrow> User \<Rightarrow> string \<Rightarrow> User" where
  "user_set_password make_password user raw_password = user\<lparr>password := make_password raw_password\<rparr>"

definition user_save :: "store \<Rightarrow> User \<Rightarrow> store" where
  "user_save db user =
     db\<lparr>User_objects :=
          (if user_id user \<in> set (map user_id (User_objects db))
           then map (\<lambda>x. if user_id x = user_id user then user else x) (User_objects db)
           else User_objects db @ [user])\<rparr>"

text \<open>
  The literal of line 189, in UTF-8: U+041D U+0435 U+0432 U+0435 U+0440 U+043D U+044B
  U+0439 U+0020 U+043F U+0430 U+0440 U+043E U+043B U+044C ("wrong password").
\<close>

definition wrong_password_text :: string where
  "wrong_password_text =
     [CHR 0xD0, CHR 0x9D, CHR 0xD0, CHR 0xB5, CHR 0xD0, CHR 0xB2, CHR 0xD0, CHR 0xB5, CHR 0xD1,
      CHR 0x80, CHR 0xD0, CHR 0xBD, CHR 0xD1, CHR 0x8B, CHR 0xD0, CHR 0xB9, CHR 0x20, CHR 0xD0,
      CHR 0xBF, CHR 0xD0, CHR 0xB0, CHR 0xD1, CHR 0x80, CHR 0xD0, CHR 0xBE, CHR 0xD0, CHR 0xBB,
      CHR 0xD1, CHR 0x8C]"

definition UserViewSet_set_password ::
  "(string \<Rightarrow> string) \<Rightarrow> (string \<Rightarrow> string \<Rightarrow> bool) \<Rightarrow> ('d \<Rightarrow> PasswordSerializer) \<Rightarrow>
   store \<Rightarrow> User \<Rightarrow> 'd \<Rightarrow> (exn + Response) \<times> store" where
  "UserViewSet_set_password make_password check_password new_PasswordSerializer db request_user request_data =
     (let user = request_user;
          serializer = new_PasswordSerializer request_data
      in if is_valid serializer then
           (case ps_data serializer ''current_password'' of
              None \<Rightarrow> (Inl (KeyError ''current_password''), db)
            | Some current_password \<Rightarrow>
                if \<not> user_check_password check_password user current_password then
                  (Inr \<lparr>data = Dict [(''current_password'', wrong_password_text)],
                        status = HTTP_400_BAD_REQUEST\<rparr>, db)
                else
                  (case ps_data serializer ''new_password'' of
                     None \<Rightarrow> (Inl (KeyError ''new_password''), db)
                   | Some new_password \<Rightarrow>
                       (let user = user_set_password make_password user new_password
                        in (Inr \<lparr>data = NoData, status = HTTP_204_NO_CONTENT\<rparr>,
                            user_save db user))))
         else (Inr \<lparr>data = Errors (ps_errors serializer), status = HTTP_400_BAD_REQUEST\<rparr>, db))"

subsection \<open>Invariants of the store\<close>

text \<open>
  Modelled from the spec: the constraints of the tables, declared with the models
  (\<open>recipes/models.py\<close> and \<open>users/models.py\<close> are not among the sources). Primary
  keys are unique, and "a Favorite/Cart/Subscription record is unique per (user,
  target) pair", which the storage layer enforces. What the storage layer does when a
  view tries to insert a second record for a pair is not in views.py and is not
  modelled: the properties of \<open>create\<close> below are about a pair that has no record yet.
\<close>

definition unique_primary_keys :: "store \<Rightarrow> bool" where
  "unique_primary_keys db =
     (distinct (map user_id (User_objects db)) \<and>
      distinct (map recipe_id (Recipe_objects db)) \<and>
      distinct (map favorite_id (Favorite_objects db)) \<and>
      distinct (map shopcart_id (ShoppingCart_objects db)) \<and>
      distinct (map subscription_id (Subscription_objects db)))"

definition unique_together :: "store \<Rightarrow> bool" where
  "unique_together db =
     (distinct (map (\<lambda>f. (favorite_user f, favorite_recipe f)) (Favorite_objects db)) \<and>
      distinct (map (\<lambda>c. (shopcart_user c, shopcart_recipe c)) (ShoppingCart_objects db)) \<and>
      distinct (map (\<lambda>s. (subscription_user s, subscription_author s)) (Subscription_objects db)))"

subsection \<open>A store to run the views on\<close>

definition example_db :: store where
  "example_db =
     \<lparr>User_objects =
        [\<lparr>user_id = 1, password = ''sha:old''\<rparr>, \<lparr>user_id = 2, password = ''sha:two''\<rparr>,
         \<lparr>user_id = 3, password = ''sha:three''\<rparr>],
      Recipe_objects =
        [\<lparr>recipe_id = 10, recipe_author = 2\<rparr>, \<lparr>recipe_id = 11, recipe_author = 2\<rparr>,
         \<lparr>recipe_id = 12, recipe_author = 1\<rparr>],
      IngredientAmount_objects =
        [\<lparr>ia_recipe = 10, ia_ingredient = \<lparr>name = ''milk'', measurement_unit = ''ml''\<rparr>, amount = 200\<rparr>,
         \<lparr>ia_recipe = 10, ia_ingredient = \<lparr>name = ''eggs'', measurement_unit = ''pcs''\<rparr>, amount = 2\<rparr>,
         \<lparr>ia_recipe = 11, ia_ingredient = \<lparr>name = ''eggs'', measurement_unit = ''pcs''\<rparr>, amount = 3\<rparr>,
         \<lparr>ia_recipe = 12, ia_ingredient = \<lparr>name = ''eggs'', measurement_unit = ''pcs''\<rparr>, amount = 7\<rparr>],
      Favorite_objects =
        [\<lparr>favorite_id = 1, favorite_user = 1, favorite_recipe = 10\<rparr>,
         \<lparr>favorite_id = 2, favorite_user = 2, favorite_recipe = 10\<rparr>],
      ShoppingCart_objects =
        [\<lparr>shopcart_id = 1, shopcart_user = 1, shopcart_recipe = 10\<rparr>,
         \<lparr>shopcart_id = 2, shopcart_user = 1, shopcart_recipe = 11\<rparr>,
         \<lparr>shopcart_id = 3, shopcart_user = 2, shopcart_recipe = 12\<rparr>],
      Subscription_objects =
        [\<lparr>subscription_id = 1, subscription_user = 1, subscription_author = 2\<rparr>]\<rparr>"

definition user1 :: User where
  "user1 = \<lparr>user_id = 1, password = ''sha:old''\<rparr>"

definition user3 :: User where
  "user3 = \<lparr>user_id = 3, password = ''sha:three''\<rparr>"

definition example_make_password :: "string \<Rightarrow> string" where
  "example_make_password raw = ''sha:'' @ raw"

definition example_check_password :: "string \<Rightarrow> string \<Rightarrow> bool" where
  "example_check_password raw encoded = (encoded = ''sha:'' @ raw)"

definition example_PasswordSerializer :: "(string \<rightharpoonup> string) \<Rightarrow> PasswordSerializer" where
  "example_PasswordSerializer d =
     \<lparr>ps_errors = (if d ''new_password'' = None then [(''new_password'', [''required''])] else []) @
                  (if d ''current_password'' = None then [(''current_password'', [''required''])] else []),
      ps_data = d\<rparr>"

definition example_payload :: "string \<rightharpoonup> string" where
  "example_payload = [''current_password'' \<mapsto> ''old'', ''new_password'' \<mapsto> ''new'']"

definition example_wrong_payload :: "string \<rightharpoonup> string" where
  "example_wrong_payload = [''current_password'' \<mapsto> ''guess'', ''new_password'' \<mapsto> ''new'']"

definition example_recipe_payload :: payload where
  "example_recipe_payload = [''name'' \<mapsto> JStr ''omelette'', ''author'' \<mapsto> JInt 2]"

definition example_serializer_errors :: "serializer_class \<Rightarrow> payload \<Rightarrow> errors" where
  "example_serializer_errors c d = (if d ''name'' = None then [(''name'', [''required''])] else [])"

section \<open>Properties\<close>

subsection \<open>The shopping list\<close>

text \<open>
  With one cart row per user and recipe, the join keeps every \<open>IngredientAmount\<close> row
  of a recipe of the cart exactly once.
\<close>

lemma map_const_filter_unique:
  assumes "distinct (map f xs)" and "\<And>x. p x \<longleftrightarrow> f x = k"
  shows "map (\<lambda>x. c) (filter p xs) = (if \<exists>x\<in>set xs. p x then [c] else [])"
  using assms(1) unfolding assms(2)
proof (induction xs)
  case Nil
  then show ?case by simp
next
  case (Cons x xs)
  then show ?case by (auto simp: image_iff)
qed

lemma concat_map_if: "concat (map (\<lambda>x. if p x then [x] else []) xs) = filter p xs"
  by (induction xs) auto

lemma join_unique_cart:
  assumes "distinct (map (\<lambda>sc. (shopcart_user sc, shopcart_recipe sc)) (ShoppingCart_objects db))"
  shows "filter_recipe__shopcart__user db u =
         filter (\<lambda>ia. \<exists>sc\<in>set (ShoppingCart_objects db).
                    shopcart_user sc = user_id u \<and> shopcart_recipe sc = ia_recipe ia)
                (IngredientAmount_objects db)"
proof -
  have "map (\<lambda>sc. ia) (filter (in_cart_of u ia) (ShoppingCart_objects db)) =
        (if \<exists>sc\<in>set (ShoppingCart_objects db). in_cart_of u ia sc then [ia] else [])" for ia
    by (rule map_const_filter_unique [OF assms, where k = "(user_id u, ia_recipe ia)"])
       (auto simp: in_cart_of_def)
  then show ?thesis
    unfolding filter_recipe__shopcart__user_def
    by (simp add: concat_map_if in_cart_of_def conj_commute)
qed

lemma distinct_map_insort_key:
  "distinct (map f (insort_key g x xs)) \<longleftrightarrow> distinct (map f (x # xs))"
  by (induction xs) (auto simp: set_insort_key)

lemma distinct_map_sort_key:
  "distinct (map f (sort_key g xs)) \<longleftrightarrow> distinct (map f xs)"
  by (induction xs) (auto simp: distinct_map_insort_key)

lemma keys_values_annotate:
  "map (\<lambda>g. (ingredient__name g, ingredient__measurement_unit g)) (values_annotate rows) =
   remdups (map group_key rows)"
  by (simp add: values_annotate_def comp_def)

lemma amount_values_annotate:
  "g \<in> set (values_annotate rows) \<Longrightarrow>
   ingredient_amount g = Sum_amount rows (ingredient__name g, ingredient__measurement_unit g)"
  by (auto simp: values_annotate_def)

text \<open>\<open>str_int\<close> writes an integer in decimal, as Python's \<open>str\<close> does.\<close>

lemma digit_char_value: "d < 10 \<Longrightarrow> of_char (digit_char d) = 48 + d"
proof -
  assume "d < 10"
  then have "d \<in> {0, 1, 2, 3, 4, 5, 6, 7, 8, 9}" by auto
  then show ?thesis by (auto simp: digit_char_def)
qed

lemma digit_char_in: "d < 10 \<Longrightarrow> digit_char d \<in> set ''0123456789''"
  unfolding digit_char_def by (rule nth_mem) simp

lemma str_nat_nonempty: "str_nat n \<noteq> []"
  by (subst str_nat.simps) simp

lemma str_nat_digits: "set (str_nat n) \<subseteq> set ''0123456789''"
proof (induction n rule: str_nat.induct)
  case (1 n)
  show ?case
  proof (cases "n < 10")
    case True
    with digit_char_in [of n] show ?thesis by (subst str_nat.simps) simp
  next
    case False
    with 1 digit_char_in [of "n mod 10"] show ?thesis by (subst str_nat.simps) simp
  qed
qed

lemma str_nat_value:
  "foldl (\<lambda>a c. 10 * a + (of_char c - 48)) 0 (str_nat n) = n"
proof (induction n rule: str_nat.induct)
  case (1 n)
  show ?case
  proof (cases "n < 10")
    case True
    then show ?thesis by (subst str_nat.simps) (simp add: digit_char_value)
  next
    case False
    with 1 show ?thesis by (subst str_nat.simps) (simp add: digit_char_value)
  qed
qed

lemma str_nat_no_leading_zero: "0 < n \<Longrightarrow> hd (str_nat n) \<noteq> CHR ''0''"
proof (induction n rule: str_nat.induct)
  case (1 n)
  show ?case
  proof (cases "n < 10")
    case True
    with 1(2) have "n \<in> {1, 2, 3, 4, 5, 6, 7, 8, 9}" by auto
    then show ?thesis by (subst str_nat.simps) (auto simp: digit_char_def)
  next
    case False
    then have "0 < n div 10" by simp
    with 1(1) False have "hd (str_nat (n div 10)) \<noteq> CHR ''0''" by simp
    with False show ?thesis by (subst str_nat.simps) (simp add: str_nat_nonempty)
  qed
qed

lemma str_int_decimal:
  "(0 \<le> i \<longrightarrow>
      set (str_int i) \<subseteq> set ''0123456789'' \<and>
      int (foldl (\<lambda>a c. 10 * a + (of_char c - 48)) 0 (str_int i)) = i \<and>
      str_int i \<noteq> [] \<and> (0 < i \<longrightarrow> hd (str_int i) \<noteq> CHR ''0'')) \<and>
   (i < 0 \<longrightarrow> str_int i = CHR ''-'' # str_int (- i))"
  by (auto simp: str_int_def str_nat_value str_nat_nonempty str_nat_no_leading_zero
      dest: subsetD [OF str_nat_digits])

lemma ingredient_line_eq:
  "ingredient_line = (\<lambda>g. ingredient__name g @ '': '' @ str_int (ingredient_amount g) @ '' '' @
                              ingredient__measurement_unit g @ [CHR 0x0A])"
  by (rule ext) (simp add: ingredient_line_def Let_def)

text \<open>
  C1. Let \<open>cart_rows\<close> be the \<open>IngredientAmount\<close> rows of the recipes in the user's
  shopping cart and \<open>groups\<close> the rows of the query of \<open>download_shopping_cart\<close>. The
  groups are ordered by ingredient name (strings compared byte by byte); there is one
  group for each pair of ingredient name and measurement unit that occurs in
  \<open>cart_rows\<close>, and no other; the amount of a group is the sum of the amounts of the
  rows of \<open>cart_rows\<close> with its name and unit; and when there is a group, the body is
  the header line (the bytes of the literal of line 142) followed by one line
  \<open>name: amount unit\<close> per group, in that order, the amount written in decimal: digits
  only, of the amount's value, with no leading zero, after a minus sign when it is
  negative.
\<close>

theorem download_shopping_cart_aggregates:
  fixes db :: store and request_user :: User
  defines "cart_rows \<equiv>
     filter (\<lambda>ia. \<exists>sc\<in>set (ShoppingCart_objects db).
                shopcart_user sc = user_id request_user \<and> shopcart_recipe sc = ia_recipe ia)
            (IngredientAmount_objects db)"
  defines "groups \<equiv> shopping_cart_ingredients db request_user"
  assumes unique: "unique_together db"
  shows "sorted (map ingredient__name groups) \<and>
         distinct (map (\<lambda>g. (ingredient__name g, ingredient__measurement_unit g)) groups) \<and>
         set (map (\<lambda>g. (ingredient__name g, ingredient__measurement_unit g)) groups) =
           set (map (\<lambda>ia. (name (ia_ingredient ia), measurement_unit (ia_ingredient ia))) cart_rows) \<and>
         (\<forall>g\<in>set groups. ingredient_amount g =
            sum_list (map amount (filter (\<lambda>ia. name (ia_ingredient ia) = ingredient__name g \<and>
               measurement_unit (ia_ingredient ia) = ingredient__measurement_unit g) cart_rows))) \<and>
         (groups \<noteq> [] \<longrightarrow> content (download_shopping_cart db request_user) =
            [CHR 0xD0, CHR 0xA1, CHR 0xD0, CHR 0xBF, CHR 0xD0, CHR 0xB8, CHR 0xD1, CHR 0x81, CHR 0xD0,
             CHR 0xBE, CHR 0xD0, CHR 0xBA, CHR 0x20, CHR 0xD0, CHR 0xBF, CHR 0xD0, CHR 0xBE, CHR 0xD0,
             CHR 0xBA, CHR 0xD1, CHR 0x83, CHR 0xD0, CHR 0xBF, CHR 0xD0, CHR 0xBE, CHR 0xD0, CHR 0xBA,
             CHR 0x3A, CHR 0x0A] @
            concat (map (\<lambda>g. ingredient__name g @ '': '' @ str_int (ingredient_amount g) @ '' '' @
                              ingredient__measurement_unit g @ [CHR 0x0A]) groups)) \<and>
         (\<forall>i. (0 \<le> i \<longrightarrow>
                 set (str_int i) \<subseteq> set ''0123456789'' \<and>
                 int (foldl (\<lambda>a c. 10 * a + (of_char c - 48)) 0 (str_int i)) = i \<and>
                 str_int i \<noteq> [] \<and> (0 < i \<longrightarrow> hd (str_int i) \<noteq> CHR ''0'')) \<and>
              (i < 0 \<longrightarrow> str_int i = CHR ''-'' # str_int (- i)))"
proof -
  have rows: "filter_recipe__shopcart__user db request_user = cart_rows"
    unfolding cart_rows_def using unique
    by (intro join_unique_cart) (simp add: unique_together_def)
  have groups: "groups = sort_key ingredient__name (values_annotate cart_rows)"
    by (simp add: groups_def shopping_cart_ingredients_def order_by_ingredient__name_def rows)
  have 1: "sorted (map ingredient__name groups)"
    by (simp add: groups)
  have 2: "distinct (map (\<lambda>g. (ingredient__name g, ingredient__measurement_unit g)) groups)"
    by (simp add: groups distinct_map_sort_key keys_values_annotate)
  have 3: "set (map (\<lambda>g. (ingredient__name g, ingredient__measurement_unit g)) groups) =
           set (map (\<lambda>ia. (name (ia_ingredient ia), measurement_unit (ia_ingredient ia))) cart_rows)"
  proof -
    have "set (map (\<lambda>g. (ingredient__name g, ingredient__measurement_unit g)) groups) =
          set (map (\<lambda>g. (ingredient__name g, ingredient__measurement_unit g)) (values_annotate cart_rows))"
      by (simp add: groups)
    also have "\<dots> = set (map group_key cart_rows)"
      by (simp only: keys_values_annotate set_remdups)
    finally show ?thesis by (simp add: group_key_def)
  qed
  have 4: "ingredient_amount g =
            sum_list (map amount (filter (\<lambda>ia. name (ia_ingredient ia) = ingredient__name g \<and>
               measurement_unit (ia_ingredient ia) = ingredient__measurement_unit g) cart_rows))"
    if "g \<in> set groups" for g
  proof -
    from that have "g \<in> set (values_annotate cart_rows)" by (simp add: groups)
    then show ?thesis
      by (simp add: amount_values_annotate Sum_amount_def group_key_def)
  qed
  have 5: "content (download_shopping_cart db request_user) =
            [CHR 0xD0, CHR 0xA1, CHR 0xD0, CHR 0xBF, CHR 0xD0, CHR 0xB8, CHR 0xD1, CHR 0x81, CHR 0xD0,
             CHR 0xBE, CHR 0xD0, CHR 0xBA, CHR 0x20, CHR 0xD0, CHR 0xBF, CHR 0xD0, CHR 0xBE, CHR 0xD0,
             CHR 0xBA, CHR 0xD1, CHR 0x83, CHR 0xD0, CHR 0xBF, CHR 0xD0, CHR 0xBE, CHR 0xD0, CHR 0xBA,
             CHR 0x3A, CHR 0x0A] @
            concat (map (\<lambda>g. ingredient__name g @ '': '' @ str_int (ingredient_amount g) @ '' '' @
                              ingredient__measurement_unit g @ [CHR 0x0A]) groups)"
    if "groups \<noteq> []"
    using that
    by (simp add: download_shopping_cart_def groups_def [symmetric] Let_def ingredient_line_eq
        set_header_def new_HttpResponse_def shopping_list_header_def)
  note 6 = str_int_decimal
  from 1 2 3 4 5 6 show ?thesis by blast
qed

text \<open>
  The cart of user 1 holds recipe 10 (2 eggs, 200 ml of milk) and recipe 11 (3 eggs):
  one line for the eggs, with amount 5.
\<close>

theorem download_shopping_cart_aggregates_witness:
  "unique_together example_db \<and>
   shopping_cart_ingredients example_db user1 =
     [\<lparr>ingredient__name = ''eggs'', ingredient__measurement_unit = ''pcs'', ingredient_amount = 5\<rparr>,
      \<lparr>ingredient__name = ''milk'', ingredient__measurement_unit = ''ml'', ingredient_amount = 200\<rparr>] \<and>
   content (download_shopping_cart example_db user1) =
     [CHR 0xD0, CHR 0xA1, CHR 0xD0, CHR 0xBF, CHR 0xD0, CHR 0xB8, CHR 0xD1, CHR 0x81, CHR 0xD0,
      CHR 0xBE, CHR 0xD0, CHR 0xBA, CHR 0x20, CHR 0xD0, CHR 0xBF, CHR 0xD0, CHR 0xBE, CHR 0xD0,
      CHR 0xBA, CHR 0xD1, CHR 0x83, CHR 0xD0, CHR 0xBF, CHR 0xD0, CHR 0xBE, CHR 0xD0, CHR 0xBA,
      CHR 0x3A, CHR 0x0A] @
     ''eggs: 5 pcs'' @ [CHR 0x0A] @ ''milk: 200 ml'' @ [CHR 0x0A]"
proof -
  have u: "unique_together example_db"
    by (simp add: unique_together_def example_db_def)
  have g: "shopping_cart_ingredients example_db user1 =
     [\<lparr>ingredient__name = ''eggs'', ingredient__measurement_unit = ''pcs'', ingredient_amount = 5\<rparr>,
      \<lparr>ingredient__name = ''milk'', ingredient__measurement_unit = ''ml'', ingredient_amount = 200\<rparr>]"
    by (simp add: shopping_cart_ingredients_def order_by_ingredient__name_def values_annotate_def
        filter_recipe__shopcart__user_def example_db_def user1_def in_cart_of_def group_key_def
        Sum_amount_def)
  have s5: "str_int 5 = ''5''" and s200: "str_int 200 = ''200''"
    by (simp_all add: str_int_def str_nat.simps digit_char_def)
  from download_shopping_cart_aggregates [OF u, of user1]
  have "content (download_shopping_cart example_db user1) =
     [CHR 0xD0, CHR 0xA1, CHR 0xD0, CHR 0xBF, CHR 0xD0, CHR 0xB8, CHR 0xD1, CHR 0x81, CHR 0xD0,
      CHR 0xBE, CHR 0xD0, CHR 0xBA, CHR 0x20, CHR 0xD0, CHR 0xBF, CHR 0xD0, CHR 0xBE, CHR 0xD0,
      CHR 0xBA, CHR 0xD1, CHR 0x83, CHR 0xD0, CHR 0xBF, CHR 0xD0, CHR 0xBE, CHR 0xD0, CHR 0xBA,
      CHR 0x3A, CHR 0x0A] @
     ''eggs: 5 pcs'' @ [CHR 0x0A] @ ''milk: 200 ml'' @ [CHR 0x0A]"
    by (simp add: g s5 s200)
  with u g show ?thesis by simp
qed

lemma no_cart_no_ingredients:
  assumes "filter (\<lambda>sc. shopcart_user sc = user_id request_user) (ShoppingCart_objects db) = []"
  shows "shopping_cart_ingredients db request_user = []"
proof -
  have "filter (in_cart_of request_user ia) (ShoppingCart_objects db) = []" for ia
    using assms by (auto simp: filter_empty_conv in_cart_of_def)
  then have "filter_recipe__shopcart__user db request_user = []"
    by (simp add: filter_recipe__shopcart__user_def)
  then show ?thesis
    by (simp add: shopping_cart_ingredients_def order_by_ingredient__name_def values_annotate_def)
qed

lemma download_status_headers:
  "status_code (download_shopping_cart db request_user) = 200 \<and>
   headers (download_shopping_cart db request_user) ''Content-Type'' = Some ''text/plain'' \<and>
   headers (download_shopping_cart db request_user) ''Content-Disposition'' =
     Some (''attachment; filename='' @ [CHR 0x22] @ ''shopping_list.txt'' @ [CHR 0x22])"
  by (simp add: download_shopping_cart_def Let_def set_header_def new_HttpResponse_def HTTP_200_OK_def)

text \<open>
  C2. When the user has no shopping-cart row, the body of \<open>download_shopping_cart\<close> is
  exactly the bytes of the literal of line 140; when the user has one, the response
  has status 200,
  \<open>Content-Type: text/plain\<close> and
  \<open>Content-Disposition: attachment; filename="shopping_list.txt"\<close>.
\<close>

theorem download_shopping_cart_body_and_headers:
  "(filter (\<lambda>sc. shopcart_user sc = user_id request_user) (ShoppingCart_objects db) = [] \<longrightarrow>
      content (download_shopping_cart db request_user) =
        [CHR 0xD0, CHR 0x92, CHR 0x20, CHR 0xD0, CHR 0xB2, CHR 0xD0, CHR 0xB0, CHR 0xD1, CHR 0x88,
         CHR 0xD0, CHR 0xB5, CHR 0xD0, CHR 0xB9, CHR 0x20, CHR 0xD0, CHR 0xBA, CHR 0xD0, CHR 0xBE,
         CHR 0xD1, CHR 0x80, CHR 0xD0, CHR 0xB7, CHR 0xD0, CHR 0xB8, CHR 0xD0, CHR 0xBD, CHR 0xD0,
         CHR 0xB5, CHR 0x20, CHR 0xD0, CHR 0xBF, CHR 0xD1, CHR 0x83, CHR 0xD1, CHR 0x81, CHR 0xD1,
         CHR 0x82, CHR 0xD0, CHR 0xBE]) \<and>
   (filter (\<lambda>sc. shopcart_user sc = user_id request_user) (ShoppingCart_objects db) \<noteq> [] \<longrightarrow>
      status_code (download_shopping_cart db request_user) = 200 \<and>
      headers (download_shopping_cart db request_user) ''Content-Type'' = Some ''text/plain'' \<and>
      headers (download_shopping_cart db request_user) ''Content-Disposition'' =
        Some (''attachment; filename='' @ [CHR 0x22] @ ''shopping_list.txt'' @ [CHR 0x22]))"
proof (intro conjI impI)
  assume "filter (\<lambda>sc. shopcart_user sc = user_id request_user) (ShoppingCart_objects db) = []"
  then have "shopping_cart_ingredients db request_user = []"
    by (rule no_cart_no_ingredients)
  then show "content (download_shopping_cart db request_user) =
        [CHR 0xD0, CHR 0x92, CHR 0x20, CHR 0xD0, CHR 0xB2, CHR 0xD0, CHR 0xB0, CHR 0xD1, CHR 0x88,
         CHR 0xD0, CHR 0xB5, CHR 0xD0, CHR 0xB9, CHR 0x20, CHR 0xD0, CHR 0xBA, CHR 0xD0, CHR 0xBE,
         CHR 0xD1, CHR 0x80, CHR 0xD0, CHR 0xB7, CHR 0xD0, CHR 0xB8, CHR 0xD0, CHR 0xBD, CHR 0xD0,
         CHR 0xB5, CHR 0x20, CHR 0xD0, CHR 0xBF, CHR 0xD1, CHR 0x83, CHR 0xD1, CHR 0x81, CHR 0xD1,
         CHR 0x82, CHR 0xD0, CHR 0xBE]"
    by (simp add: download_shopping_cart_def Let_def set_header_def new_HttpResponse_def
        empty_cart_text_def)
qed (simp_all add: download_status_headers)

theorem download_shopping_cart_body_and_headers_witness:
  "filter (\<lambda>sc. shopcart_user sc = user_id user3) (ShoppingCart_objects example_db) = [] \<and>
   content (download_shopping_cart example_db user3) =
     [CHR 0xD0, CHR 0x92, CHR 0x20, CHR 0xD0, CHR 0xB2, CHR 0xD0, CHR 0xB0, CHR 0xD1, CHR 0x88,
      CHR 0xD0, CHR 0xB5, CHR 0xD0, CHR 0xB9, CHR 0x20, CHR 0xD0, CHR 0xBA, CHR 0xD0, CHR 0xBE,
      CHR 0xD1, CHR 0x80, CHR 0xD0, CHR 0xB7, CHR 0xD0, CHR 0xB8, CHR 0xD0, CHR 0xBD, CHR 0xD0,
      CHR 0xB5, CHR 0x20, CHR 0xD0, CHR 0xBF, CHR 0xD1, CHR 0x83, CHR 0xD1, CHR 0x81, CHR 0xD1,
      CHR 0x82, CHR 0xD0, CHR 0xBE] \<and>
   filter (\<lambda>sc. shopcart_user sc = user_id user1) (ShoppingCart_objects example_db) \<noteq> [] \<and>
   status_code (download_shopping_cart example_db user1) = 200 \<and>
   headers (download_shopping_cart example_db user1) ''Content-Type'' = Some ''text/plain'' \<and>
   headers (download_shopping_cart example_db user1) ''Content-Disposition'' =
     Some (''attachment; filename='' @ [CHR 0x22] @ ''shopping_list.txt'' @ [CHR 0x22])"
proof -
  have e: "filter (\<lambda>sc. shopcart_user sc = user_id user3) (ShoppingCart_objects example_db) = []"
    by (simp add: example_db_def user3_def)
  have n: "filter (\<lambda>sc. shopcart_user sc = user_id user1) (ShoppingCart_objects example_db) \<noteq> []"
    by (simp add: example_db_def user1_def)
  from download_shopping_cart_body_and_headers [of user3 example_db]
       download_shopping_cart_body_and_headers [of user1 example_db] e n
  show ?thesis by blast
qed

text \<open>
  C10. When the user has no shopping-cart row, the response of
  \<open>download_shopping_cart\<close> is the empty-cart literal served like the listing: status
  200, \<open>Content-Type: text/plain\<close> and
  \<open>Content-Disposition: attachment; filename="shopping_list.txt"\<close>, and no other
  header.
\<close>

theorem download_empty_cart_is_attachment:
  assumes "filter (\<lambda>sc. shopcart_user sc = user_id request_user) (ShoppingCart_objects db) = []"
  shows "download_shopping_cart db request_user =
           \<lparr>content = empty_cart_text, status_code = 200,
            headers = [''Content-Type'' \<mapsto> ''text/plain'',
                       ''Content-Disposition'' \<mapsto>
                         ''attachment; filename='' @ [CHR 0x22] @ ''shopping_list.txt'' @ [CHR 0x22]]\<rparr>"
proof -
  from assms have "shopping_cart_ingredients db request_user = []"
    by (rule no_cart_no_ingredients)
  then show ?thesis
    by (simp add: download_shopping_cart_def Let_def set_header_def new_HttpResponse_def
        HTTP_200_OK_def)
qed

theorem download_empty_cart_is_attachment_witness:
  "filter (\<lambda>sc. shopcart_user sc = user_id user3) (ShoppingCart_objects example_db) = [] \<and>
   content (download_shopping_cart example_db user3) = empty_cart_text \<and>
   status_code (download_shopping_cart example_db user3) = 200 \<and>
   headers (download_shopping_cart example_db user3) ''Content-Type'' = Some ''text/plain'' \<and>
   headers (download_shopping_cart example_db user3) ''Content-Disposition'' =
     Some (''attachment; filename='' @ [CHR 0x22] @ ''shopping_list.txt'' @ [CHR 0x22])"
proof -
  have e: "filter (\<lambda>sc. shopcart_user sc = user_id user3) (ShoppingCart_objects example_db) = []"
    by (simp add: example_db_def user3_def)
  from download_empty_cart_is_attachment [OF e] e show ?thesis by simp
qed

subsection \<open>Join records\<close>

lemma get_object_or_404_none:
  "\<forall>x\<in>set objects. \<not> lookup x \<Longrightarrow> get_object_or_404 objects lookup = Inl Http404"
  by (simp add: get_object_or_404_def filter_empty_conv [THEN iffD2])

lemma filter_unique_key:
  "distinct (map key xs) \<Longrightarrow> x \<in> set xs \<Longrightarrow> filter (\<lambda>y. key y = key x) xs = [x]"
proof (induction xs)
  case Nil
  then show ?case by simp
next
  case (Cons a xs)
  show ?case
  proof (cases "a = x")
    case True
    with Cons.prems have "\<forall>y\<in>set xs. key y \<noteq> key x" by (auto simp: image_iff)
    then have "filter (\<lambda>y. key y = key x) xs = []" by (simp add: filter_empty_conv)
    with True show ?thesis by simp
  next
    case False
    with Cons.prems have "x \<in> set xs" and "key a \<noteq> key x" by (auto simp: image_iff)
    with Cons show ?thesis by simp
  qed
qed

lemma get_object_or_404_unique:
  assumes "distinct (map key objects)" and "x \<in> set objects" and "\<And>y. lookup y \<longleftrightarrow> key y = key x"
  shows "get_object_or_404 objects lookup = Inr x"
proof -
  have "lookup = (\<lambda>y. key y = key x)"
    by (rule ext) (rule assms(3))
  with filter_unique_key [OF assms(1,2)] show ?thesis
    by (simp add: get_object_or_404_def)
qed

lemma perform_destroy_remove1:
  "distinct (map id_of objects) \<Longrightarrow> x \<in> set objects \<Longrightarrow>
   perform_destroy id_of objects x = remove1 x objects"
proof (induction objects)
  case Nil
  then show ?case by simp
next
  case (Cons a xs)
  show ?case
  proof (cases "a = x")
    case True
    with Cons.prems have "\<forall>y\<in>set xs. id_of y \<noteq> id_of x" by (auto simp: image_iff)
    then have "filter (\<lambda>y. id_of y \<noteq> id_of x) xs = xs" by (simp add: filter_id_conv)
    with True show ?thesis by (simp add: perform_destroy_def)
  next
    case False
    with Cons.prems have "x \<in> set xs" and "id_of a \<noteq> id_of x" by (auto simp: image_iff)
    with Cons False show ?thesis by (auto simp: perform_destroy_def)
  qed
qed

text \<open>
  C3. In a store with unique primary keys and one join record per pair of user and
  target, \<open>destroy\<close> of the \<open>Favorite\<close>, \<open>ShoppingCart\<close> and \<open>Subscription\<close> views
  looks the record up by the target id of the URL and the current user. When no record
  has that pair, it raises \<open>Http404\<close> (answered with 404) and the store is as it was;
  when a record has it, that record alone is removed from its table, nothing else
  changes, and the response is 204 with no data.
\<close>

theorem destroy_join_record:
  assumes pks: "unique_primary_keys db" and pairs: "unique_together db"
  shows
   "((\<forall>f\<in>set (Favorite_objects db).
        \<not> (favorite_recipe f = k \<and> favorite_user f = user_id request_user)) \<longrightarrow>
      FavoriteAPIView_destroy db request_user k = (Inl Http404, db)) \<and>
    (\<forall>f\<in>set (Favorite_objects db).
        favorite_recipe f = k \<and> favorite_user f = user_id request_user \<longrightarrow>
        FavoriteAPIView_destroy db request_user k =
          (Inr \<lparr>data = NoData, status = 204\<rparr>,
           db\<lparr>Favorite_objects := remove1 f (Favorite_objects db)\<rparr>)) \<and>
    ((\<forall>c\<in>set (ShoppingCart_objects db).
        \<not> (shopcart_recipe c = k \<and> shopcart_user c = user_id request_user)) \<longrightarrow>
      ShoppingCartAPIView_destroy db request_user k = (Inl Http404, db)) \<and>
    (\<forall>c\<in>set (ShoppingCart_objects db).
        shopcart_recipe c = k \<and> shopcart_user c = user_id request_user \<longrightarrow>
        ShoppingCartAPIView_destroy db request_user k =
          (Inr \<lparr>data = NoData, status = 204\<rparr>,
           db\<lparr>ShoppingCart_objects := remove1 c (ShoppingCart_objects db)\<rparr>)) \<and>
    ((\<forall>s\<in>set (Subscription_objects db).
        \<not> (subscription_author s = k \<and> subscription_user s = user_id request_user)) \<longrightarrow>
      SubscribeAPIView_destroy db request_user k = (Inl Http404, db)) \<and>
    (\<forall>s\<in>set (Subscription_objects db).
        subscription_author s = k \<and> subscription_user s = user_id request_user \<longrightarrow>
        SubscribeAPIView_destroy db request_user k =
          (Inr \<lparr>data = NoData, status = 204\<rparr>,
           db\<lparr>Subscription_objects := remove1 s (Subscription_objects db)\<rparr>)) \<and>
    exception_status Http404 = 404"
proof -
  have f0: "FavoriteAPIView_destroy db request_user k = (Inl Http404, db)"
    if "\<forall>f\<in>set (Favorite_objects db).
          \<not> (favorite_recipe f = k \<and> favorite_user f = user_id request_user)"
    using get_object_or_404_none [OF that] by (simp add: FavoriteAPIView_destroy_def)
  have f1: "FavoriteAPIView_destroy db request_user k =
          (Inr \<lparr>data = NoData, status = 204\<rparr>,
           db\<lparr>Favorite_objects := remove1 f (Favorite_objects db)\<rparr>)"
    if "f \<in> set (Favorite_objects db)"
      and "favorite_recipe f = k \<and> favorite_user f = user_id request_user" for f
  proof -
    have "get_object_or_404 (Favorite_objects db)
            (\<lambda>f. favorite_recipe f = k \<and> favorite_user f = user_id request_user) = Inr f"
      using pairs that
      by (intro get_object_or_404_unique [where key = "\<lambda>f. (favorite_user f, favorite_recipe f)"])
         (auto simp: unique_together_def)
    moreover have "perform_destroy favorite_id (Favorite_objects db) f = remove1 f (Favorite_objects db)"
      using pks that by (intro perform_destroy_remove1) (simp_all add: unique_primary_keys_def)
    ultimately show ?thesis
      by (simp add: FavoriteAPIView_destroy_def HTTP_204_NO_CONTENT_def)
  qed
  have c0: "ShoppingCartAPIView_destroy db request_user k = (Inl Http404, db)"
    if "\<forall>c\<in>set (ShoppingCart_objects db).
          \<not> (shopcart_recipe c = k \<and> shopcart_user c = user_id request_user)"
    using get_object_or_404_none [OF that] by (simp add: ShoppingCartAPIView_destroy_def)
  have c1: "ShoppingCartAPIView_destroy db request_user k =
          (Inr \<lparr>data = NoData, status = 204\<rparr>,
           db\<lparr>ShoppingCart_objects := remove1 c (ShoppingCart_objects db)\<rparr>)"
    if "c \<in> set (ShoppingCart_objects db)"
      and "shopcart_recipe c = k \<and> shopcart_user c = user_id request_user" for c
  proof -
    have "get_object_or_404 (ShoppingCart_objects db)
            (\<lambda>c. shopcart_recipe c = k \<and> shopcart_user c = user_id request_user) = Inr c"
      using pairs that
      by (intro get_object_or_404_unique [where key = "\<lambda>c. (shopcart_user c, shopcart_recipe c)"])
         (auto simp: unique_together_def)
    moreover have "perform_destroy shopcart_id (ShoppingCart_objects db) c =
                   remove1 c (ShoppingCart_objects db)"
      using pks that by (intro perform_destroy_remove1) (simp_all add: unique_primary_keys_def)
    ultimately show ?thesis
      by (simp add: ShoppingCartAPIView_destroy_def HTTP_204_NO_CONTENT_def)
  qed
  have s0: "SubscribeAPIView_destroy db request_user k = (Inl Http404, db)"
    if "\<forall>s\<in>set (Subscription_objects db).
          \<not> (subscription_author s = k \<and> subscription_user s = user_id request_user)"
    using get_object_or_404_none [OF that] by (simp add: SubscribeAPIView_destroy_def)
  have s1: "SubscribeAPIView_destroy db request_user k =
          (Inr \<lparr>data = NoData, status = 204\<rparr>,
           db\<lparr>Subscription_objects := remove1 s (Subscription_objects db)\<rparr>)"
    if "s \<in> set (Subscription_objects db)"
      and "subscription_author s = k \<and> subscription_user s = user_id request_user" for s
  proof -
    have "get_object_or_404 (Subscription_objects db)
            (\<lambda>s. subscription_author s = k \<and> subscription_user s = user_id request_user) = Inr s"
      using pairs that
      by (intro get_object_or_404_unique [where key = "\<lambda>s. (subscription_user s, subscription_author s)"])
         (auto simp: unique_together_def)
    moreover have "perform_destroy subscription_id (Subscription_objects db) s =
                   remove1 s (Subscription_objects db)"
      using pks that by (intro perform_destroy_remove1) (simp_all add: unique_primary_keys_def)
    ultimately show ?thesis
      by (simp add: SubscribeAPIView_destroy_def HTTP_204_NO_CONTENT_def)
  qed
  from f0 f1 c0 c1 s0 s1 show ?thesis by simp
qed

theorem destroy_join_record_witness:
  "unique_primary_keys example_db \<and> unique_together example_db \<and>
   FavoriteAPIView_destroy example_db user1 11 = (Inl Http404, example_db) \<and>
   FavoriteAPIView_destroy example_db user1 10 =
     (Inr \<lparr>data = NoData, status = 204\<rparr>,
      example_db\<lparr>Favorite_objects := [\<lparr>favorite_id = 2, favorite_user = 2, favorite_recipe = 10\<rparr>]\<rparr>) \<and>
   ShoppingCartAPIView_destroy example_db user1 12 = (Inl Http404, example_db) \<and>
   ShoppingCartAPIView_destroy example_db user1 10 =
     (Inr \<lparr>data = NoData, status = 204\<rparr>,
      example_db\<lparr>ShoppingCart_objects :=
        [\<lparr>shopcart_id = 2, shopcart_user = 1, shopcart_recipe = 11\<rparr>,
         \<lparr>shopcart_id = 3, shopcart_user = 2, shopcart_recipe = 12\<rparr>]\<rparr>) \<and>
   SubscribeAPIView_destroy example_db user1 3 = (Inl Http404, example_db) \<and>
   SubscribeAPIView_destroy example_db user1 2 =
     (Inr \<lparr>data = NoData, status = 204\<rparr>, example_db\<lparr>Subscription_objects := []\<rparr>)"
proof -
  have pks: "unique_primary_keys example_db"
    by (simp add: unique_primary_keys_def example_db_def)
  have pairs: "unique_together example_db"
    by (simp add: unique_together_def example_db_def)
  have f0: "FavoriteAPIView_destroy example_db user1 11 = (Inl Http404, example_db)"
    using destroy_join_record [OF pks pairs, where k = 11 and request_user = user1]
    by (simp add: example_db_def user1_def)
  have c0: "ShoppingCartAPIView_destroy example_db user1 12 = (Inl Http404, example_db)"
    using destroy_join_record [OF pks pairs, where k = 12 and request_user = user1]
    by (simp add: example_db_def user1_def)
  have s0: "SubscribeAPIView_destroy example_db user1 3 = (Inl Http404, example_db)"
    using destroy_join_record [OF pks pairs, where k = 3 and request_user = user1]
    by (simp add: example_db_def user1_def)
  have f1: "FavoriteAPIView_destroy example_db user1 10 =
     (Inr \<lparr>data = NoData, status = 204\<rparr>,
      example_db\<lparr>Favorite_objects := [\<lparr>favorite_id = 2, favorite_user = 2, favorite_recipe = 10\<rparr>]\<rparr>)"
    using destroy_join_record [OF pks pairs, where k = 10 and request_user = user1]
    by (simp add: example_db_def user1_def)
  have c1: "ShoppingCartAPIView_destroy example_db user1 10 =
     (Inr \<lparr>data = NoData, status = 204\<rparr>,
      example_db\<lparr>ShoppingCart_objects :=
        [\<lparr>shopcart_id = 2, shopcart_user = 1, shopcart_recipe = 11\<rparr>,
         \<lparr>shopcart_id = 3, shopcart_user = 2, shopcart_recipe = 12\<rparr>]\<rparr>)"
    using destroy_join_record [OF pks pairs, where k = 10 and request_user = user1]
    by (simp add: example_db_def user1_def)
  have s1: "SubscribeAPIView_destroy example_db user1 2 =
     (Inr \<lparr>data = NoData, status = 204\<rparr>, example_db\<lparr>Subscription_objects := []\<rparr>)"
    using destroy_join_record [OF pks pairs, where k = 2 and request_user = user1]
    by (simp add: example_db_def user1_def)
  from pks pairs f0 f1 c0 c1 s0 s1 show ?thesis by simp
qed

lemma get_object_or_404_pk:
  assumes "distinct (map key objects)" and "k \<in> set (map key objects)"
  shows "\<exists>x. get_object_or_404 objects (\<lambda>y. key y = k) = Inr x \<and> key x = k"
proof -
  from assms(2) obtain x where x: "x \<in> set objects" "key x = k" by auto
  have "get_object_or_404 objects (\<lambda>y. key y = k) = Inr x"
    using assms(1) x by (intro get_object_or_404_unique [where key = key]) auto
  with x show ?thesis by blast
qed

text \<open>
  C4. For a request the serializer finds no error in, in a store with unique primary
  keys: when no recipe (for \<open>Subscription\<close>, no user) has the id of the URL, \<open>create\<close>
  of the \<open>Favorite\<close>, \<open>ShoppingCart\<close> and \<open>Subscription\<close> views raises \<open>Http404\<close>
  (answered with 404) and the store is as it was; when one has it, and the current user
  has no record for it yet, one record is added that binds the current user to that
  target, and the response is 201 with the serialized record.
\<close>

theorem create_join_record:
  assumes pks: "unique_primary_keys db"
  shows
   "((\<forall>r\<in>set (Recipe_objects db). recipe_id r \<noteq> k) \<longrightarrow>
       FavoriteAPIView_create [] db request_user k = (Inl Http404, db) \<and>
       ShoppingCartAPIView_create [] db request_user k = (Inl Http404, db)) \<and>
    ((\<forall>u\<in>set (User_objects db). user_id u \<noteq> k) \<longrightarrow>
       SubscribeAPIView_create [] db request_user k = (Inl Http404, db)) \<and>
    (k \<in> set (map recipe_id (Recipe_objects db)) \<and>
     (user_id request_user, k) \<notin>
       set (map (\<lambda>f. (favorite_user f, favorite_recipe f)) (Favorite_objects db)) \<longrightarrow>
       FavoriteAPIView_create [] db request_user k =
         (Inr \<lparr>data = Serialized FavoriteSerializer (FavoriteInstance
                  \<lparr>favorite_id = next_pk (map favorite_id (Favorite_objects db)),
                   favorite_user = user_id request_user, favorite_recipe = k\<rparr>),
               status = 201\<rparr>,
          db\<lparr>Favorite_objects := Favorite_objects db @
                [\<lparr>favorite_id = next_pk (map favorite_id (Favorite_objects db)),
                  favorite_user = user_id request_user, favorite_recipe = k\<rparr>]\<rparr>)) \<and>
    (k \<in> set (map recipe_id (Recipe_objects db)) \<and>
     (user_id request_user, k) \<notin>
       set (map (\<lambda>c. (shopcart_user c, shopcart_recipe c)) (ShoppingCart_objects db)) \<longrightarrow>
       ShoppingCartAPIView_create [] db request_user k =
         (Inr \<lparr>data = Serialized ShoppingCartSerializer (ShoppingCartInstance
                  \<lparr>shopcart_id = next_pk (map shopcart_id (ShoppingCart_objects db)),
                   shopcart_user = user_id request_user, shopcart_recipe = k\<rparr>),
               status = 201\<rparr>,
          db\<lparr>ShoppingCart_objects := ShoppingCart_objects db @
                [\<lparr>shopcart_id = next_pk (map shopcart_id (ShoppingCart_objects db)),
                  shopcart_user = user_id request_user, shopcart_recipe = k\<rparr>]\<rparr>)) \<and>
    (k \<in> set (map user_id (User_objects db)) \<and>
     (user_id request_user, k) \<notin>
       set (map (\<lambda>s. (subscription_user s, subscription_author s)) (Subscription_objects db)) \<longrightarrow>
       SubscribeAPIView_create [] db request_user k =
         (Inr \<lparr>data = Serialized SubscribeSerializer (SubscriptionInstance
                  \<lparr>subscription_id = next_pk (map subscription_id (Subscription_objects db)),
                   subscription_user = user_id request_user, subscription_author = k\<rparr>),
               status = 201\<rparr>,
          db\<lparr>Subscription_objects := Subscription_objects db @
                [\<lparr>subscription_id = next_pk (map subscription_id (Subscription_objects db)),
                  subscription_user = user_id request_user, subscription_author = k\<rparr>]\<rparr>)) \<and>
    exception_status Http404 = 404"
proof -
  have r0: "get_object_or_404 (Recipe_objects db) (\<lambda>r. recipe_id r = k) = Inl Http404"
    if "\<forall>r\<in>set (Recipe_objects db). recipe_id r \<noteq> k"
    using that by (rule get_object_or_404_none)
  have u0: "get_object_or_404 (User_objects db) (\<lambda>u. user_id u = k) = Inl Http404"
    if "\<forall>u\<in>set (User_objects db). user_id u \<noteq> k"
    using that by (rule get_object_or_404_none)
  have r1: "\<exists>x. get_object_or_404 (Recipe_objects db) (\<lambda>r. recipe_id r = k) = Inr x \<and> recipe_id x = k"
    if "k \<in> set (map recipe_id (Recipe_objects db))"
    using pks that by (intro get_object_or_404_pk) (simp add: unique_primary_keys_def)
  have u1: "\<exists>x. get_object_or_404 (User_objects db) (\<lambda>u. user_id u = k) = Inr x \<and> user_id x = k"
    if "k \<in> set (map user_id (User_objects db))"
    using pks that by (intro get_object_or_404_pk) (simp add: unique_primary_keys_def)
  show ?thesis
  proof (intro conjI impI)
    assume "\<forall>r\<in>set (Recipe_objects db). recipe_id r \<noteq> k"
    from r0 [OF this]
    show "FavoriteAPIView_create [] db request_user k = (Inl Http404, db)"
      and "ShoppingCartAPIView_create [] db request_user k = (Inl Http404, db)"
      by (simp_all add: FavoriteAPIView_create_def FavoriteAPIView_perform_create_def
          ShoppingCartAPIView_create_def ShoppingCartAPIView_perform_create_def)
  next
    assume "\<forall>u\<in>set (User_objects db). user_id u \<noteq> k"
    from u0 [OF this]
    show "SubscribeAPIView_create [] db request_user k = (Inl Http404, db)"
      by (simp add: SubscribeAPIView_create_def SubscribeAPIView_perform_create_def)
  next
    assume "k \<in> set (map recipe_id (Recipe_objects db)) \<and>
     (user_id request_user, k) \<notin>
       set (map (\<lambda>f. (favorite_user f, favorite_recipe f)) (Favorite_objects db))"
    then have "k \<in> set (map recipe_id (Recipe_objects db))" by simp
    from r1 [OF this] obtain x
      where x: "get_object_or_404 (Recipe_objects db) (\<lambda>r. recipe_id r = k) = Inr x" "recipe_id x = k"
      by blast
    show "FavoriteAPIView_create [] db request_user k =
         (Inr \<lparr>data = Serialized FavoriteSerializer (FavoriteInstance
                  \<lparr>favorite_id = next_pk (map favorite_id (Favorite_objects db)),
                   favorite_user = user_id request_user, favorite_recipe = k\<rparr>),
               status = 201\<rparr>,
          db\<lparr>Favorite_objects := Favorite_objects db @
                [\<lparr>favorite_id = next_pk (map favorite_id (Favorite_objects db)),
                  favorite_user = user_id request_user, favorite_recipe = k\<rparr>]\<rparr>)"
      by (simp add: FavoriteAPIView_create_def FavoriteAPIView_perform_create_def x Let_def
          HTTP_201_CREATED_def)
  next
    assume "k \<in> set (map recipe_id (Recipe_objects db)) \<and>
     (user_id request_user, k) \<notin>
       set (map (\<lambda>c. (shopcart_user c, shopcart_recipe c)) (ShoppingCart_objects db))"
    then have "k \<in> set (map recipe_id (Recipe_objects db))" by simp
    from r1 [OF this] obtain x
      where x: "get_object_or_404 (Recipe_objects db) (\<lambda>r. recipe_id r = k) = Inr x" "recipe_id x = k"
      by blast
    show "ShoppingCartAPIView_create [] db request_user k =
         (Inr \<lparr>data = Serialized ShoppingCartSerializer (ShoppingCartInstance
                  \<lparr>shopcart_id = next_pk (map shopcart_id (ShoppingCart_objects db)),
                   shopcart_user = user_id request_user, shopcart_recipe = k\<rparr>),
               status = 201\<rparr>,
          db\<lparr>ShoppingCart_objects := ShoppingCart_objects db @
                [\<lparr>shopcart_id = next_pk (map shopcart_id (ShoppingCart_objects db)),
                  shopcart_user = user_id request_user, shopcart_recipe = k\<rparr>]\<rparr>)"
      by (simp add: ShoppingCartAPIView_create_def ShoppingCartAPIView_perform_create_def x Let_def
          HTTP_201_CREATED_def)
  next
    assume "k \<in> set (map user_id (User_objects db)) \<and>
     (user_id request_user, k) \<notin>
       set (map (\<lambda>s. (subscription_user s, subscription_author s)) (Subscription_objects db))"
    then have "k \<in> set (map user_id (User_objects db))" by simp
    from u1 [OF this] obtain x
      where x: "get_object_or_404 (User_objects db) (\<lambda>u. user_id u = k) = Inr x" "user_id x = k"
      by blast
    show "SubscribeAPIView_create [] db request_user k =
         (Inr \<lparr>data = Serialized SubscribeSerializer (SubscriptionInstance
                  \<lparr>subscription_id = next_pk (map subscription_id (Subscription_objects db)),
                   subscription_user = user_id request_user, subscription_author = k\<rparr>),
               status = 201\<rparr>,
          db\<lparr>Subscription_objects := Subscription_objects db @
                [\<lparr>subscription_id = next_pk (map subscription_id (Subscription_objects db)),
                  subscription_user = user_id request_user, subscription_author = k\<rparr>]\<rparr>)"
      by (simp add: SubscribeAPIView_create_def SubscribeAPIView_perform_create_def x Let_def
          HTTP_201_CREATED_def)
  qed simp
qed

theorem create_join_record_witness:
  "unique_primary_keys example_db \<and>
   12 \<in> set (map recipe_id (Recipe_objects example_db)) \<and>
   (user_id user1, 12) \<notin>
     set (map (\<lambda>f. (favorite_user f, favorite_recipe f)) (Favorite_objects example_db)) \<and>
   (user_id user1, 12) \<notin>
     set (map (\<lambda>c. (shopcart_user c, shopcart_recipe c)) (ShoppingCart_objects example_db)) \<and>
   3 \<in> set (map user_id (User_objects example_db)) \<and>
   (user_id user1, 3) \<notin>
     set (map (\<lambda>s. (subscription_user s, subscription_author s)) (Subscription_objects example_db)) \<and>
   FavoriteAPIView_create [] example_db user1 99 = (Inl Http404, example_db) \<and>
   ShoppingCartAPIView_create [] example_db user1 99 = (Inl Http404, example_db) \<and>
   SubscribeAPIView_create [] example_db user1 99 = (Inl Http404, example_db) \<and>
   FavoriteAPIView_create [] example_db user1 12 =
     (Inr \<lparr>data = Serialized FavoriteSerializer (FavoriteInstance
              \<lparr>favorite_id = 3, favorite_user = 1, favorite_recipe = 12\<rparr>), status = 201\<rparr>,
      example_db\<lparr>Favorite_objects := Favorite_objects example_db @
         [\<lparr>favorite_id = 3, favorite_user = 1, favorite_recipe = 12\<rparr>]\<rparr>) \<and>
   ShoppingCartAPIView_create [] example_db user1 12 =
     (Inr \<lparr>data = Serialized ShoppingCartSerializer (ShoppingCartInstance
              \<lparr>shopcart_id = 4, shopcart_user = 1, shopcart_recipe = 12\<rparr>), status = 201\<rparr>,
      example_db\<lparr>ShoppingCart_objects := ShoppingCart_objects example_db @
         [\<lparr>shopcart_id = 4, shopcart_user = 1, shopcart_recipe = 12\<rparr>]\<rparr>) \<and>
   SubscribeAPIView_create [] example_db user1 3 =
     (Inr \<lparr>data = Serialized SubscribeSerializer (SubscriptionInstance
              \<lparr>subscription_id = 2, subscription_user = 1, subscription_author = 3\<rparr>), status = 201\<rparr>,
      example_db\<lparr>Subscription_objects := Subscription_objects example_db @
         [\<lparr>subscription_id = 2, subscription_user = 1, subscription_author = 3\<rparr>]\<rparr>)"
proof -
  have pks: "unique_primary_keys example_db"
    by (simp add: unique_primary_keys_def example_db_def)
  have n: "next_pk (map favorite_id (Favorite_objects example_db)) = 3"
    "next_pk (map shopcart_id (ShoppingCart_objects example_db)) = 4"
    "next_pk (map subscription_id (Subscription_objects example_db)) = 2"
    by (simp_all add: next_pk_def example_db_def)
  have m: "FavoriteAPIView_create [] example_db user1 99 = (Inl Http404, example_db)"
    "ShoppingCartAPIView_create [] example_db user1 99 = (Inl Http404, example_db)"
    "SubscribeAPIView_create [] example_db user1 99 = (Inl Http404, example_db)"
    using create_join_record [OF pks, where k = 99 and request_user = user1]
    by (simp_all add: example_db_def)
  have u1: "user_id user1 = 1" by (simp add: user1_def)
  have r: "12 \<in> set (map recipe_id (Recipe_objects example_db))"
    "(user_id user1, 12) \<notin>
       set (map (\<lambda>f. (favorite_user f, favorite_recipe f)) (Favorite_objects example_db))"
    "(user_id user1, 12) \<notin>
       set (map (\<lambda>c. (shopcart_user c, shopcart_recipe c)) (ShoppingCart_objects example_db))"
    and u: "3 \<in> set (map user_id (User_objects example_db))"
    "(user_id user1, 3) \<notin>
       set (map (\<lambda>s. (subscription_user s, subscription_author s)) (Subscription_objects example_db))"
    by (simp_all add: example_db_def u1)
  from create_join_record [OF pks, where k = 12 and request_user = user1] r
  have a: "FavoriteAPIView_create [] example_db user1 12 =
     (Inr \<lparr>data = Serialized FavoriteSerializer (FavoriteInstance
              \<lparr>favorite_id = 3, favorite_user = 1, favorite_recipe = 12\<rparr>), status = 201\<rparr>,
      example_db\<lparr>Favorite_objects := Favorite_objects example_db @
         [\<lparr>favorite_id = 3, favorite_user = 1, favorite_recipe = 12\<rparr>]\<rparr>)"
    and b: "ShoppingCartAPIView_create [] example_db user1 12 =
     (Inr \<lparr>data = Serialized ShoppingCartSerializer (ShoppingCartInstance
              \<lparr>shopcart_id = 4, shopcart_user = 1, shopcart_recipe = 12\<rparr>), status = 201\<rparr>,
      example_db\<lparr>ShoppingCart_objects := ShoppingCart_objects example_db @
         [\<lparr>shopcart_id = 4, shopcart_user = 1, shopcart_recipe = 12\<rparr>]\<rparr>)"
    by (simp_all add: n u1)
  from create_join_record [OF pks, where k = 3 and request_user = user1] u
  have c: "SubscribeAPIView_create [] example_db user1 3 =
     (Inr \<lparr>data = Serialized SubscribeSerializer (SubscriptionInstance
              \<lparr>subscription_id = 2, subscription_user = 1, subscription_author = 3\<rparr>), status = 201\<rparr>,
      example_db\<lparr>Subscription_objects := Subscription_objects example_db @
         [\<lparr>subscription_id = 2, subscription_user = 1, subscription_author = 3\<rparr>]\<rparr>)"
    by (simp add: n u1)
  from pks r u m a b c show ?thesis by simp
qed

lemma fold_max_upper: "a \<le> fold max ids (a::nat) \<and> (\<forall>x\<in>set ids. x \<le> fold max ids a)"
proof (induction ids arbitrary: a)
  case Nil
  then show ?case by simp
next
  case (Cons i ids)
  from Cons [of "max i a"] show ?case by (auto simp: max_def split: if_splits)
qed

lemma next_pk_fresh: "next_pk ids \<notin> set ids"
proof
  assume "next_pk ids \<in> set ids"
  with fold_max_upper [of 0 ids] have "next_pk ids \<le> fold max ids 0" by blast
  then show False by (simp add: next_pk_def)
qed

text \<open>
  The views keep the invariants of the store: \<open>destroy\<close> always, \<open>create\<close> for a pair
  that has no record yet.
\<close>

lemma destroy_keeps_invariants:
  assumes "unique_primary_keys db" and "unique_together db"
  shows "unique_primary_keys (snd (FavoriteAPIView_destroy db request_user k)) \<and>
         unique_together (snd (FavoriteAPIView_destroy db request_user k)) \<and>
         unique_primary_keys (snd (ShoppingCartAPIView_destroy db request_user k)) \<and>
         unique_together (snd (ShoppingCartAPIView_destroy db request_user k)) \<and>
         unique_primary_keys (snd (SubscribeAPIView_destroy db request_user k)) \<and>
         unique_together (snd (SubscribeAPIView_destroy db request_user k))"
  using assms
  by (auto simp: FavoriteAPIView_destroy_def ShoppingCartAPIView_destroy_def
      SubscribeAPIView_destroy_def unique_primary_keys_def unique_together_def
      perform_destroy_def distinct_map_filter split: sum.splits)

lemma create_keeps_invariants:
  assumes "unique_primary_keys db" and "unique_together db"
  shows "((user_id request_user, k) \<notin>
            set (map (\<lambda>f. (favorite_user f, favorite_recipe f)) (Favorite_objects db)) \<longrightarrow>
          unique_primary_keys (snd (FavoriteAPIView_create e db request_user k)) \<and>
          unique_together (snd (FavoriteAPIView_create e db request_user k))) \<and>
         ((user_id request_user, k) \<notin>
            set (map (\<lambda>c. (shopcart_user c, shopcart_recipe c)) (ShoppingCart_objects db)) \<longrightarrow>
          unique_primary_keys (snd (ShoppingCartAPIView_create e db request_user k)) \<and>
          unique_together (snd (ShoppingCartAPIView_create e db request_user k))) \<and>
         ((user_id request_user, k) \<notin>
            set (map (\<lambda>s. (subscription_user s, subscription_author s)) (Subscription_objects db)) \<longrightarrow>
          unique_primary_keys (snd (SubscribeAPIView_create e db request_user k)) \<and>
          unique_together (snd (SubscribeAPIView_create e db request_user k)))"
proof -
  have r: "recipe_id x = k" if "get_object_or_404 (Recipe_objects db) (\<lambda>r. recipe_id r = k) = Inr x" for x
  proof -
    from that have "filter (\<lambda>r. recipe_id r = k) (Recipe_objects db) = [x]"
      by (auto simp: get_object_or_404_def split: list.splits)
    then have "x \<in> set (filter (\<lambda>r. recipe_id r = k) (Recipe_objects db))" by simp
    then show ?thesis by simp
  qed
  have u: "user_id x = k" if "get_object_or_404 (User_objects db) (\<lambda>u. user_id u = k) = Inr x" for x
  proof -
    from that have "filter (\<lambda>u. user_id u = k) (User_objects db) = [x]"
      by (auto simp: get_object_or_404_def split: list.splits)
    then have "x \<in> set (filter (\<lambda>u. user_id u = k) (User_objects db))" by simp
    then show ?thesis by simp
  qed
  show ?thesis
    using assms next_pk_fresh [of "map favorite_id (Favorite_objects db)"]
      next_pk_fresh [of "map shopcart_id (ShoppingCart_objects db)"]
      next_pk_fresh [of "map subscription_id (Subscription_objects db)"]
    by (auto simp: FavoriteAPIView_create_def FavoriteAPIView_perform_create_def
        ShoppingCartAPIView_create_def ShoppingCartAPIView_perform_create_def
        SubscribeAPIView_create_def SubscribeAPIView_perform_create_def
        unique_primary_keys_def unique_together_def Let_def
        split: sum.splits dest: r u)
qed

subsection \<open>Users\<close>

text \<open>
  C5. A \<open>PUT\<close> on a user reaches \<open>update\<close> with the keyword arguments of the URL,
  which have no \<open>partial\<close> entry: \<open>kwargs['partial']\<close> raises \<open>KeyError\<close>, which is not
  answered with 403 but ends as a server error. A \<open>PATCH\<close> reaches \<open>update\<close> through
  \<open>partial_update\<close>, with \<open>partial\<close> set, and goes on to the update of the mixin.
\<close>

theorem UserViewSet_put_raises_KeyError:
  "UserViewSet_put super_update k = Inl (KeyError ''partial'') \<and>
   exception_status (KeyError ''partial'') = 500 \<and>
   UserViewSet_patch super_update k = super_update [''pk'' \<mapsto> PyStr k, ''partial'' \<mapsto> PyBool True]"
  by (simp add: UserViewSet_put_def UserViewSet_patch_def UserViewSet_partial_update_def
      UserViewSet_update_def)

lemma user_save_stored:
  "user_id user \<in> set (map user_id (User_objects db)) \<Longrightarrow>
   user_save db user =
     db\<lparr>User_objects := map (\<lambda>x. if user_id x = user_id user then user else x) (User_objects db)\<rparr>"
  by (simp add: user_save_def)

text \<open>
  C6. For the authenticated user, a row of the user table, and a payload that
  \<open>PasswordSerializer\<close> accepts, with its two fields: when \<open>current_password\<close> does
  not verify against the stored password, \<open>set_password\<close> answers 400 with the
  dictionary of one key, \<open>current_password\<close>, and the store is as it was; when it
  verifies, the answer is 204 with no data and the stored password of that user is
  the encoding of \<open>new_password\<close>.
\<close>

theorem set_password_checks_current_password:
  assumes valid: "is_valid (new_PasswordSerializer request_data)"
    and cur: "ps_data (new_PasswordSerializer request_data) ''current_password'' = Some current_password"
    and new: "ps_data (new_PasswordSerializer request_data) ''new_password'' = Some new_password"
    and stored: "request_user \<in> set (User_objects db)"
  shows
   "(\<not> check_password current_password (password request_user) \<longrightarrow>
       UserViewSet_set_password make_password check_password new_PasswordSerializer
           db request_user request_data =
         (Inr \<lparr>data = Dict [(''current_password'', wrong_password_text)], status = 400\<rparr>, db)) \<and>
    (check_password current_password (password request_user) \<longrightarrow>
       UserViewSet_set_password make_password check_password new_PasswordSerializer
           db request_user request_data =
         (Inr \<lparr>data = NoData, status = 204\<rparr>,
          db\<lparr>User_objects :=
               map (\<lambda>x. if user_id x = user_id request_user
                         then request_user\<lparr>password := make_password new_password\<rparr> else x)
                   (User_objects db)\<rparr>))"
proof (intro conjI impI)
  assume "\<not> check_password current_password (password request_user)"
  then show "UserViewSet_set_password make_password check_password new_PasswordSerializer
           db request_user request_data =
         (Inr \<lparr>data = Dict [(''current_password'', wrong_password_text)], status = 400\<rparr>, db)"
    using valid cur
    by (simp add: UserViewSet_set_password_def Let_def user_check_password_def
        HTTP_400_BAD_REQUEST_def)
next
  assume ok: "check_password current_password (password request_user)"
  have "user_id (user_set_password make_password request_user new_password) \<in>
        set (map user_id (User_objects db))"
    using stored by (simp add: user_set_password_def)
  from user_save_stored [OF this]
  show "UserViewSet_set_password make_password check_password new_PasswordSerializer
           db request_user request_data =
         (Inr \<lparr>data = NoData, status = 204\<rparr>,
          db\<lparr>User_objects :=
               map (\<lambda>x. if user_id x = user_id request_user
                         then request_user\<lparr>password := make_password new_password\<rparr> else x)
                   (User_objects db)\<rparr>)"
    using valid cur new ok
    by (simp add: UserViewSet_set_password_def Let_def user_check_password_def
        user_set_password_def HTTP_204_NO_CONTENT_def)
qed

theorem set_password_checks_current_password_witness:
  "is_valid (example_PasswordSerializer example_wrong_payload) \<and>
   is_valid (example_PasswordSerializer example_payload) \<and>
   user1 \<in> set (User_objects example_db) \<and>
   \<not> example_check_password ''guess'' (password user1) \<and>
   UserViewSet_set_password example_make_password example_check_password
       example_PasswordSerializer example_db user1 example_wrong_payload =
     (Inr \<lparr>data = Dict [(''current_password'', wrong_password_text)], status = 400\<rparr>, example_db) \<and>
   example_check_password ''old'' (password user1) \<and>
   UserViewSet_set_password example_make_password example_check_password
       example_PasswordSerializer example_db user1 example_payload =
     (Inr \<lparr>data = NoData, status = 204\<rparr>,
      example_db\<lparr>User_objects :=
        [\<lparr>user_id = 1, password = ''sha:new''\<rparr>, \<lparr>user_id = 2, password = ''sha:two''\<rparr>,
         \<lparr>user_id = 3, password = ''sha:three''\<rparr>]\<rparr>)"
proof -
  have v: "is_valid (example_PasswordSerializer example_wrong_payload)"
    "is_valid (example_PasswordSerializer example_payload)"
    by (simp_all add: is_valid_def example_PasswordSerializer_def example_wrong_payload_def
        example_payload_def)
  have s: "user1 \<in> set (User_objects example_db)"
    by (simp add: example_db_def user1_def)
  have w: "\<not> example_check_password ''guess'' (password user1)"
    and r: "example_check_password ''old'' (password user1)"
    by (simp_all add: example_check_password_def user1_def)
  have "UserViewSet_set_password example_make_password example_check_password
       example_PasswordSerializer example_db user1 example_wrong_payload =
     (Inr \<lparr>data = Dict [(''current_password'', wrong_password_text)], status = 400\<rparr>, example_db)"
    using set_password_checks_current_password [where new_PasswordSerializer = example_PasswordSerializer
          and request_data = example_wrong_payload and request_user = user1 and db = example_db
          and current_password = "''guess''" and new_password = "''new''"
          and check_password = example_check_password and make_password = example_make_password,
        OF v(1) _ _ s] w
    by (simp add: example_PasswordSerializer_def example_wrong_payload_def)
  moreover have "UserViewSet_set_password example_make_password example_check_password
       example_PasswordSerializer example_db user1 example_payload =
     (Inr \<lparr>data = NoData, status = 204\<rparr>,
      example_db\<lparr>User_objects :=
        [\<lparr>user_id = 1, password = ''sha:new''\<rparr>, \<lparr>user_id = 2, password = ''sha:two''\<rparr>,
         \<lparr>user_id = 3, password = ''sha:three''\<rparr>]\<rparr>)"
    using set_password_checks_current_password [where new_PasswordSerializer = example_PasswordSerializer
          and request_data = example_payload and request_user = user1 and db = example_db
          and current_password = "''old''" and new_password = "''new''"
          and check_password = example_check_password and make_password = example_make_password,
        OF v(2) _ _ s] r
    by (simp add: example_PasswordSerializer_def example_payload_def example_db_def user1_def
        example_make_password_def)
  ultimately show ?thesis using v s w r by simp
qed

text \<open>
  C9. When the payload is not valid, \<open>set_password\<close> answers 400 with the errors of the
  serializer and the store is as it was; when the payload is valid and
  \<open>current_password\<close> does not verify, it answers 400 and the store is as it was; and
  whenever the store has changed, the response is the 204 of the success path.
\<close>

theorem set_password_failure_keeps_store:
  "(\<not> is_valid (new_PasswordSerializer request_data) \<longrightarrow>
      UserViewSet_set_password make_password check_password new_PasswordSerializer
          db request_user request_data =
        (Inr \<lparr>data = Errors (ps_errors (new_PasswordSerializer request_data)), status = 400\<rparr>, db)) \<and>
   (\<forall>current_password.
      is_valid (new_PasswordSerializer request_data) \<and>
      ps_data (new_PasswordSerializer request_data) ''current_password'' = Some current_password \<and>
      \<not> check_password current_password (password request_user) \<longrightarrow>
      UserViewSet_set_password make_password check_password new_PasswordSerializer
          db request_user request_data =
        (Inr \<lparr>data = Dict [(''current_password'', wrong_password_text)], status = 400\<rparr>, db)) \<and>
   (snd (UserViewSet_set_password make_password check_password new_PasswordSerializer
          db request_user request_data) \<noteq> db \<longrightarrow>
      fst (UserViewSet_set_password make_password check_password new_PasswordSerializer
          db request_user request_data) = Inr \<lparr>data = NoData, status = 204\<rparr>)"
  by (auto simp: UserViewSet_set_password_def Let_def user_check_password_def
      HTTP_400_BAD_REQUEST_def HTTP_204_NO_CONTENT_def split: option.splits)

theorem set_password_failure_keeps_store_witness:
  "\<not> is_valid (example_PasswordSerializer Map.empty) \<and>
   UserViewSet_set_password example_make_password example_check_password
       example_PasswordSerializer example_db user1 Map.empty =
     (Inr \<lparr>data = Errors [(''new_password'', [''required'']), (''current_password'', [''required''])],
           status = 400\<rparr>, example_db) \<and>
   is_valid (example_PasswordSerializer example_wrong_payload) \<and>
   ps_data (example_PasswordSerializer example_wrong_payload) ''current_password'' = Some ''guess'' \<and>
   \<not> example_check_password ''guess'' (password user1) \<and>
   UserViewSet_set_password example_make_password example_check_password
       example_PasswordSerializer example_db user1 example_wrong_payload =
     (Inr \<lparr>data = Dict [(''current_password'', wrong_password_text)], status = 400\<rparr>, example_db) \<and>
   snd (UserViewSet_set_password example_make_password example_check_password
       example_PasswordSerializer example_db user1 example_payload) \<noteq> example_db \<and>
   fst (UserViewSet_set_password example_make_password example_check_password
       example_PasswordSerializer example_db user1 example_payload) = Inr \<lparr>data = NoData, status = 204\<rparr>"
proof -
  have i: "\<not> is_valid (example_PasswordSerializer Map.empty)"
    by (simp add: is_valid_def example_PasswordSerializer_def)
  have v: "is_valid (example_PasswordSerializer example_wrong_payload)"
    and c: "ps_data (example_PasswordSerializer example_wrong_payload) ''current_password'' = Some ''guess''"
    and w: "\<not> example_check_password ''guess'' (password user1)"
    by (simp_all add: is_valid_def example_PasswordSerializer_def example_wrong_payload_def
        example_check_password_def user1_def)
  have ch: "snd (UserViewSet_set_password example_make_password example_check_password
       example_PasswordSerializer example_db user1 example_payload) \<noteq> example_db"
    by (simp add: UserViewSet_set_password_def Let_def is_valid_def example_PasswordSerializer_def
        example_payload_def user_check_password_def example_check_password_def user1_def
        user_set_password_def user_save_def example_db_def example_make_password_def)
  note t1 = set_password_failure_keeps_store [where new_PasswordSerializer = example_PasswordSerializer
      and request_data = Map.empty and db = example_db and request_user = user1
      and make_password = example_make_password and check_password = example_check_password]
  note t2 = set_password_failure_keeps_store [where new_PasswordSerializer = example_PasswordSerializer
      and request_data = example_wrong_payload and db = example_db and request_user = user1
      and make_password = example_make_password and check_password = example_check_password]
  note t3 = set_password_failure_keeps_store [where new_PasswordSerializer = example_PasswordSerializer
      and request_data = example_payload and db = example_db and request_user = user1
      and make_password = example_make_password and check_password = example_check_password]
  have a: "UserViewSet_set_password example_make_password example_check_password
       example_PasswordSerializer example_db user1 Map.empty =
     (Inr \<lparr>data = Errors [(''new_password'', [''required'']), (''current_password'', [''required''])],
           status = 400\<rparr>, example_db)"
    using t1 i by (simp add: example_PasswordSerializer_def)
  have b: "UserViewSet_set_password example_make_password example_check_password
       example_PasswordSerializer example_db user1 example_wrong_payload =
     (Inr \<lparr>data = Dict [(''current_password'', wrong_password_text)], status = 400\<rparr>, example_db)"
    using t2 v c w by blast
  have d: "fst (UserViewSet_set_password example_make_password example_check_password
       example_PasswordSerializer example_db user1 example_payload) = Inr \<lparr>data = NoData, status = 204\<rparr>"
    using t3 ch by blast
  from i a v c w b ch d show ?thesis by simp
qed

text \<open>\<open>set_password\<close> and the creation of a recipe keep the invariants as well.\<close>

lemma user_save_keeps_ids:
  "user_id user \<in> set (map user_id (User_objects db)) \<Longrightarrow>
   map user_id (User_objects (user_save db user)) = map user_id (User_objects db)"
  by (simp add: user_save_def comp_def cong: map_cong)

lemma users_and_recipes_keep_invariants:
  assumes "unique_primary_keys db" and "unique_together db"
  shows "unique_primary_keys (snd (RecipeViewSet_create serializer_errors db request_user request_data)) \<and>
         unique_together (snd (RecipeViewSet_create serializer_errors db request_user request_data)) \<and>
         unique_primary_keys (snd (UserViewSet_set_password make_password check_password
            new_PasswordSerializer db request_user d)) \<and>
         unique_together (snd (UserViewSet_set_password make_password check_password
            new_PasswordSerializer db request_user d))"
proof -
  have s: "unique_primary_keys (user_save db u) \<and> unique_together (user_save db u)" for u
  proof (cases "user_id u \<in> set (map user_id (User_objects db))")
    case True
    from user_save_keeps_ids [OF this] assms show ?thesis
      by (simp add: unique_primary_keys_def unique_together_def) (simp add: user_save_def)
  next
    case False
    with assms show ?thesis
      by (simp add: unique_primary_keys_def unique_together_def user_save_def)
  qed
  have r: "unique_primary_keys (snd (RecipeViewSet_create serializer_errors db request_user request_data)) \<and>
         unique_together (snd (RecipeViewSet_create serializer_errors db request_user request_data))"
    using assms next_pk_fresh [of "map recipe_id (Recipe_objects db)"]
    by (auto simp: RecipeViewSet_create_def RecipeInteractSerializer_save_def Let_def
        unique_primary_keys_def unique_together_def
        split: sum.splits option.splits json.splits request_data.splits)
  have p: "unique_primary_keys (snd (UserViewSet_set_password make_password check_password
            new_PasswordSerializer db request_user d)) \<and>
         unique_together (snd (UserViewSet_set_password make_password check_password
            new_PasswordSerializer db request_user d))"
    using assms s
    by (auto simp: UserViewSet_set_password_def Let_def split: option.splits)
  from r p show ?thesis by simp
qed

subsection \<open>Recipes\<close>

text \<open>
  When the data is a JSON object and the write serializer finds no error in it (with
  the author entry set by the view), \<open>create\<close> persists one recipe whose author is the
  authenticated user, whatever author the payload held, and answers 201 with the
  representation that \<open>RecipeReadSerializer\<close> gives of that recipe; the serializer that
  reads the input is \<open>RecipeInteractSerializer\<close>, the class of the action \<open>create\<close>.
\<close>

lemma recipe_create_json_forces_author:
  assumes valid: "serializer_errors RecipeInteractSerializer
                    (d(''author'' \<mapsto> JInt (int (user_id request_user)))) = []"
  shows "RecipeViewSet_create serializer_errors db request_user (JSONObject d) =
           (Inr \<lparr>data = Serialized RecipeReadSerializer (RecipeInstance
                    \<lparr>recipe_id = next_pk (map recipe_id (Recipe_objects db)),
                     recipe_author = user_id request_user\<rparr>),
                 status = 201\<rparr>,
            db\<lparr>Recipe_objects := Recipe_objects db @
                  [\<lparr>recipe_id = next_pk (map recipe_id (Recipe_objects db)),
                    recipe_author = user_id request_user\<rparr>]\<rparr>) \<and>
         RecipeViewSet_get_serializer_class ''create'' = RecipeInteractSerializer \<and>
         RecipeViewSet_get_serializer_class ''create'' \<noteq> RecipeReadSerializer"
proof -
  have c: "RecipeViewSet_get_serializer_class ''create'' = RecipeInteractSerializer"
    by (simp add: RecipeViewSet_get_serializer_class_def)
  have s: "RecipeInteractSerializer_save db (d(''author'' \<mapsto> JInt (int (user_id request_user)))) =
           Inr (\<lparr>recipe_id = next_pk (map recipe_id (Recipe_objects db)),
                 recipe_author = user_id request_user\<rparr>,
                db\<lparr>Recipe_objects := Recipe_objects db @
                  [\<lparr>recipe_id = next_pk (map recipe_id (Recipe_objects db)),
                    recipe_author = user_id request_user\<rparr>]\<rparr>)"
    by (simp add: RecipeInteractSerializer_save_def Let_def)
  show ?thesis
    using valid by (simp add: RecipeViewSet_create_def Let_def c s HTTP_201_CREATED_def)
qed

lemma recipe_create_json_example:
  "example_serializer_errors RecipeInteractSerializer
     (example_recipe_payload(''author'' \<mapsto> JInt (int (user_id user1)))) = [] \<and>
   example_recipe_payload ''author'' = Some (JInt 2) \<and>
   RecipeViewSet_create example_serializer_errors example_db user1 (JSONObject example_recipe_payload) =
     (Inr \<lparr>data = Serialized RecipeReadSerializer (RecipeInstance \<lparr>recipe_id = 13, recipe_author = 1\<rparr>),
           status = 201\<rparr>,
      example_db\<lparr>Recipe_objects := Recipe_objects example_db @ [\<lparr>recipe_id = 13, recipe_author = 1\<rparr>]\<rparr>)"
proof -
  have v: "example_serializer_errors RecipeInteractSerializer
     (example_recipe_payload(''author'' \<mapsto> JInt (int (user_id user1)))) = []"
    by (simp add: example_serializer_errors_def example_recipe_payload_def)
  have a: "example_recipe_payload ''author'' = Some (JInt 2)"
    by (simp add: example_recipe_payload_def)
  have n: "next_pk (map recipe_id (Recipe_objects example_db)) = 13"
    by (simp add: next_pk_def example_db_def)
  have u: "user_id user1 = 1"
    by (simp add: user1_def)
  from recipe_create_json_forces_author [where serializer_errors = example_serializer_errors
      and d = example_recipe_payload and request_user = user1 and db = example_db, OF v]
  have "RecipeViewSet_create example_serializer_errors example_db user1 (JSONObject example_recipe_payload) =
     (Inr \<lparr>data = Serialized RecipeReadSerializer (RecipeInstance \<lparr>recipe_id = 13, recipe_author = 1\<rparr>),
           status = 201\<rparr>,
      example_db\<lparr>Recipe_objects := Recipe_objects example_db @ [\<lparr>recipe_id = 13, recipe_author = 1\<rparr>]\<rparr>)"
    by (simp add: n u)
  with v a show ?thesis by simp
qed

text \<open>
  C7. When the data of the request is an immutable \<open>QueryDict\<close> (a form-encoded body),
  the assignment of line 108 raises \<open>AttributeError\<close> before the serializer sees the
  payload: no recipe is persisted and there is no 201 response, whatever the payload
  holds; the exception is not handled and ends as a server error. The same payload
  sent as a JSON object is created with the authenticated user as its author.
\<close>

theorem recipe_create_immutable_data_raises:
  "RecipeViewSet_create serializer_errors db request_user (ImmutableQueryDict d) =
     (Inl AttributeError, db) \<and>
   exception_status AttributeError = 500 \<and>
   RecipeViewSet_create example_serializer_errors example_db user1
       (ImmutableQueryDict example_recipe_payload) = (Inl AttributeError, example_db) \<and>
   RecipeViewSet_create example_serializer_errors example_db user1 (JSONObject example_recipe_payload) =
     (Inr \<lparr>data = Serialized RecipeReadSerializer (RecipeInstance \<lparr>recipe_id = 13, recipe_author = 1\<rparr>),
           status = 201\<rparr>,
      example_db\<lparr>Recipe_objects := Recipe_objects example_db @ [\<lparr>recipe_id = 13, recipe_author = 1\<rparr>]\<rparr>)"
  using recipe_create_json_example by (simp add: RecipeViewSet_create_def)

lemma method_in_names:
  "method_lower m \<in> set RecipeViewSet_http_method_names \<longleftrightarrow>
   m \<in> {GET, POST, PATCH, DELETE}"
  by (cases m) (simp_all add: RecipeViewSet_http_method_names_def)

text \<open>
  C8. A request to a route of \<open>RecipeViewSet\<close> reaches a handler only when its method
  is GET, POST, PATCH or DELETE; PUT never reaches one, and a PUT that passes the
  permissions of the view is answered with \<open>MethodNotAllowed\<close>. In a store with unique
  primary keys, a PATCH or a DELETE on a recipe by an authenticated user who is not
  its author raises \<open>PermissionDenied\<close> (answered with 403).
\<close>

theorem recipe_methods_and_author_permission:
  assumes pks: "unique_primary_keys db"
  shows
   "(\<forall>h. RecipeViewSet_dispatch db request_user route method = Inr h \<longrightarrow>
          method \<in> {GET, POST, PATCH, DELETE}) \<and>
    (\<forall>h. RecipeViewSet_dispatch db request_user route PUT \<noteq> Inr h) \<and>
    (request_user \<noteq> None \<longrightarrow>
       RecipeViewSet_dispatch db request_user route PUT = Inl MethodNotAllowed) \<and>
    (\<forall>r\<in>set (Recipe_objects db). \<forall>u.
        recipe_author r \<noteq> user_id u \<longrightarrow>
        RecipeViewSet_dispatch db (Some u) (Detail_route (recipe_id r)) PATCH = Inl PermissionDenied \<and>
        RecipeViewSet_dispatch db (Some u) (Detail_route (recipe_id r)) DELETE = Inl PermissionDenied) \<and>
    exception_status PermissionDenied = 403 \<and> exception_status MethodNotAllowed = 405"
proof -
  have 1: "method \<in> {GET, POST, PATCH, DELETE}"
    if "RecipeViewSet_dispatch db request_user route method = Inr h" for h
  proof (rule ccontr)
    assume "method \<notin> {GET, POST, PATCH, DELETE}"
    then have "method_lower method \<notin> set RecipeViewSet_http_method_names"
      using method_in_names [of "method"] by blast
    then have "\<exists>e. RecipeViewSet_dispatch db request_user route method = Inl e"
      by (simp add: RecipeViewSet_dispatch_def)
    with that show False by auto
  qed
  have 2: "RecipeViewSet_dispatch db request_user route PUT \<noteq> Inr h" for h
    by (simp add: RecipeViewSet_dispatch_def RecipeViewSet_http_method_names_def)
  have 3: "RecipeViewSet_dispatch db request_user route PUT = Inl MethodNotAllowed"
    if "request_user \<noteq> None"
    using that
    by (cases route)
       (auto simp: RecipeViewSet_dispatch_def RecipeViewSet_http_method_names_def
          AuthorOrReadOnly_has_permission_def IsAuthenticated_has_permission_def)
  have 4: "RecipeViewSet_dispatch db (Some u) (Detail_route (recipe_id r)) PATCH = Inl PermissionDenied \<and>
        RecipeViewSet_dispatch db (Some u) (Detail_route (recipe_id r)) DELETE = Inl PermissionDenied"
    if "r \<in> set (Recipe_objects db)" and "recipe_author r \<noteq> user_id u" for r u
  proof -
    have "get_object_or_404 (Recipe_objects db) (\<lambda>x. recipe_id x = recipe_id r) = Inr r"
      using pks that(1)
      by (intro get_object_or_404_unique [where key = recipe_id])
         (simp_all add: unique_primary_keys_def)
    then have "RecipeViewSet_get_object db (Some u) m (recipe_id r) = Inl PermissionDenied"
      if "m \<in> {PATCH, DELETE}" for m
      using that \<open>recipe_author r \<noteq> user_id u\<close>
      by (auto simp: RecipeViewSet_get_object_def AuthorOrReadOnly_has_object_permission_def
          SAFE_METHODS_def permission_denied_def)
    then show ?thesis
      by (simp add: RecipeViewSet_dispatch_def RecipeViewSet_http_method_names_def
          AuthorOrReadOnly_has_permission_def)
  qed
  from 1 2 3 4 show ?thesis by simp
qed

theorem recipe_methods_and_author_permission_witness:
  "unique_primary_keys example_db \<and>
   RecipeViewSet_dispatch example_db (Some user1) List_route GET = Inr (''list'', None) \<and>
   RecipeViewSet_dispatch example_db (Some user1) (Detail_route 10) PUT = Inl MethodNotAllowed \<and>
   \<lparr>recipe_id = 10, recipe_author = 2\<rparr> \<in> set (Recipe_objects example_db) \<and>
   RecipeViewSet_dispatch example_db (Some user1) (Detail_route 10) PATCH = Inl PermissionDenied \<and>
   RecipeViewSet_dispatch example_db (Some user1) (Detail_route 10) DELETE = Inl PermissionDenied \<and>
   RecipeViewSet_dispatch example_db (Some user1) (Detail_route 12) PATCH =
     Inr (''partial_update'', Some \<lparr>recipe_id = 12, recipe_author = 1\<rparr>)"
proof -
  have pks: "unique_primary_keys example_db"
    by (simp add: unique_primary_keys_def example_db_def)
  note t = recipe_methods_and_author_permission [OF pks]
  have g: "RecipeViewSet_dispatch example_db (Some user1) List_route GET = Inr (''list'', None)"
    by (simp add: RecipeViewSet_dispatch_def RecipeViewSet_http_method_names_def
        AuthorOrReadOnly_has_permission_def)
  have own: "RecipeViewSet_dispatch example_db (Some user1) (Detail_route 12) PATCH =
     Inr (''partial_update'', Some \<lparr>recipe_id = 12, recipe_author = 1\<rparr>)"
    by (simp add: RecipeViewSet_dispatch_def RecipeViewSet_http_method_names_def
        AuthorOrReadOnly_has_permission_def RecipeViewSet_get_object_def get_object_or_404_def
        example_db_def AuthorOrReadOnly_has_object_permission_def user1_def)
  have p: "RecipeViewSet_dispatch example_db (Some user1) (Detail_route 10) PUT = Inl MethodNotAllowed"
    using t [of "Some user1" "Detail_route 10" GET] by simp
  have r: "\<lparr>recipe_id = 10, recipe_author = 2\<rparr> \<in> set (Recipe_objects example_db)"
    by (simp add: example_db_def)
  have "recipe_author \<lparr>recipe_id = 10, recipe_author = 2\<rparr> \<noteq> user_id user1"
    by (simp add: user1_def)
  with t [of "Some user1" "Detail_route 10" GET] r
  have d: "RecipeViewSet_dispatch example_db (Some user1) (Detail_route 10) PATCH = Inl PermissionDenied \<and>
   RecipeViewSet_dispatch example_db (Some user1) (Detail_route 10) DELETE = Inl PermissionDenied"
    by fastforce
  from pks g p r d own show ?thesis by simp
qed

end
